theory Spec2Isabelle
  imports Main "HOL-Library.AList" "HOL-Library.Char_ord" "HOL-Library.List_Lexorder"
begin

section \<open>Strings and the pieces of the Python library the schedulers call\<close>

text \<open>
  A Python \<open>str\<close> is modelled as a \<open>string\<close> whose characters are the code points
  below 256.  Dates are the proleptic Gregorian ordinals of \<open>date.toordinal()\<close>
  (0001-01-01 is day 1), a \<open>datetime\<close> with minute resolution is the number of minutes
  \<open>1440 * ordinal + 60 * hour + minute\<close>; comparison and \<open>timedelta\<close> arithmetic are
  then comparison and addition of numbers, and leaving the range of representable
  dates raises \<open>OverflowError\<close>, as in CPython.
\<close>

datatype py_exception = OverflowError

definition isspace :: "char \<Rightarrow> bool" where
  "isspace c = (let n = (of_char c :: nat) in
     (9 \<le> n \<and> n \<le> 13) \<or> (28 \<le> n \<and> n \<le> 32) \<or> n = 133 \<or> n = 160)"

definition isdigit :: "char \<Rightarrow> bool" where
  "isdigit c = (48 \<le> (of_char c :: nat) \<and> (of_char c :: nat) \<le> 57)"

definition digit_val :: "char \<Rightarrow> nat" where
  "digit_val c = of_char c - 48"

definition digit_char :: "nat \<Rightarrow> char" where
  "digit_char d = ''0123456789'' ! (d mod 10)"

definition strip :: "string \<Rightarrow> string" where
  "strip s = rev (dropWhile isspace (rev (dropWhile isspace s)))"

text \<open>\<open>int(text)\<close> on a run of digits that may carry surrounding blanks.\<close>

definition int_str :: "string \<Rightarrow> nat" where
  "int_str s = foldl (\<lambda>a c. 10 * a + digit_val c) 0 (strip s)"

function str_nat :: "nat \<Rightarrow> string" where
  "str_nat n = (if n < 10 then [digit_char n] else str_nat (n div 10) @ [digit_char (n mod 10)])"
  by pat_completeness auto
termination
  by (relation "measure id") auto

declare str_nat.simps [simp del]

text \<open>
  The format spec \<open>{:02d}\<close>, which \<open>strftime\<close> also follows for months, days, hours
  and minutes, and the four digits of its year, padded with zeros.
\<close>

definition zfill :: "nat \<Rightarrow> string \<Rightarrow> string" where
  "zfill w s = replicate (w - length s) CHR ''0'' @ s"

definition fmt_02d :: "nat \<Rightarrow> string" where
  "fmt_02d n = zfill 2 (str_nat n)"

definition fmt_04d :: "nat \<Rightarrow> string" where
  "fmt_04d n = zfill 4 (str_nat n)"

subsection \<open>The calendar arithmetic of \<open>datetime\<close>\<close>

definition MAXORDINAL :: nat where
  "MAXORDINAL = 3652059"

definition is_leap :: "nat \<Rightarrow> bool" where
  "is_leap year = (year mod 4 = 0 \<and> (year mod 100 \<noteq> 0 \<or> year mod 400 = 0))"

definition DAYS_IN_MONTH :: "nat list" where
  "DAYS_IN_MONTH = [0, 31, 28, 31, 30, 31, 30, 31, 31, 30, 31, 30, 31]"

definition DAYS_BEFORE_MONTH :: "nat list" where
  "DAYS_BEFORE_MONTH = [0, 0, 31, 59, 90, 120, 151, 181, 212, 243, 273, 304, 334]"

definition days_before_year :: "nat \<Rightarrow> nat" where
  "days_before_year year = (let y = year - 1 in y * 365 + y div 4 - y div 100 + y div 400)"

definition days_in_month :: "nat \<Rightarrow> nat \<Rightarrow> nat" where
  "days_in_month year month =
     (if month = 2 \<and> is_leap year then 29 else DAYS_IN_MONTH ! month)"

definition days_before_month :: "nat \<Rightarrow> nat \<Rightarrow> nat" where
  "days_before_month year month =
     DAYS_BEFORE_MONTH ! month + (if month > 2 \<and> is_leap year then 1 else 0)"

definition ymd2ord :: "nat \<Rightarrow> nat \<Rightarrow> nat \<Rightarrow> nat" where
  "ymd2ord year month day = days_before_year year + days_before_month year month + day"

text \<open>The check of the \<open>date\<close> constructor; a failure is a \<open>ValueError\<close>.\<close>

definition check_date_fields :: "nat \<Rightarrow> nat \<Rightarrow> nat \<Rightarrow> bool" where
  "check_date_fields year month day =
     (1 \<le> year \<and> year \<le> 9999 \<and> 1 \<le> month \<and> month \<le> 12 \<and>
      1 \<le> day \<and> day \<le> days_in_month year month)"

definition ord2ymd :: "nat \<Rightarrow> nat \<times> nat \<times> nat" where
  "ord2ymd ordinal =
     (let n = ordinal - 1;
          n400 = n div 146097; n = n mod 146097;
          n100 = n div 36524; n = n mod 36524;
          n4 = n div 1461; n = n mod 1461;
          n1 = n div 365; n = n mod 365;
          year = n400 * 400 + 1 + n100 * 100 + n4 * 4 + n1
      in if n1 = 4 \<or> n100 = 4 then (year - 1, 12, 31)
         else
           let leapyear = (n1 = 3 \<and> (n4 \<noteq> 24 \<or> n100 = 3));
               month = (n + 50) div 32;
               preceding = DAYS_BEFORE_MONTH ! month + (if month > 2 \<and> leapyear then 1 else 0)
           in if preceding > n
              then let month = month - 1;
                       preceding = preceding -
                         (DAYS_IN_MONTH ! month + (if month = 2 \<and> leapyear then 1 else 0))
                   in (year, month, n - preceding + 1)
              else (year, month, n - preceding + 1))"

subsection \<open>\<open>strptime\<close>: the regular expressions of the two formats\<close>

text \<open>
  \<open>strptime\<close> turns the format into a regular expression, one group of ordered
  alternatives per directive, matches it at the start of the text with backtracking,
  and raises \<open>ValueError\<close> when nothing matches, when text remains after the match, or
  when the fields are no date.  A blank in the format stands for \<open>\s+\<close>.
\<close>

definition chr_is :: "char \<Rightarrow> char \<Rightarrow> bool" where
  "chr_is a c = (c = a)"

definition chr_in :: "char \<Rightarrow> char \<Rightarrow> char \<Rightarrow> bool" where
  "chr_in lo hi c = ((of_char lo :: nat) \<le> of_char c \<and> (of_char c :: nat) \<le> of_char hi)"

datatype re_item = Group "(char \<Rightarrow> bool) list list" | Lit char | Blanks

definition re_Y :: re_item where
  "re_Y = Group [[isdigit, isdigit, isdigit, isdigit]]"

definition re_m :: re_item where
  "re_m = Group [[chr_is CHR ''1'', chr_in CHR ''0'' CHR ''2''],
                 [chr_is CHR ''0'', chr_in CHR ''1'' CHR ''9''],
                 [chr_in CHR ''1'' CHR ''9'']]"

definition re_d :: re_item where
  "re_d = Group [[chr_is CHR ''3'', chr_in CHR ''0'' CHR ''1''],
                 [chr_in CHR ''1'' CHR ''2'', isdigit],
                 [chr_is CHR ''0'', chr_in CHR ''1'' CHR ''9''],
                 [chr_in CHR ''1'' CHR ''9''],
                 [chr_is CHR '' '', chr_in CHR ''1'' CHR ''9'']]"

definition re_H :: re_item where
  "re_H = Group [[chr_is CHR ''2'', chr_in CHR ''0'' CHR ''3''],
                 [chr_in CHR ''0'' CHR ''1'', isdigit],
                 [isdigit]]"

definition re_M :: re_item where
  "re_M = Group [[chr_in CHR ''0'' CHR ''5'', isdigit], [isdigit]]"

fun match_classes :: "(char \<Rightarrow> bool) list \<Rightarrow> string \<Rightarrow> (string \<times> string) option" where
  "match_classes [] s = Some ([], s)"
| "match_classes (p # ps) [] = None"
| "match_classes (p # ps) (c # cs) =
     (if p c then map_option (\<lambda>(m, r). (c # m, r)) (match_classes ps cs) else None)"

fun first_match :: "'a list \<Rightarrow> ('a \<Rightarrow> 'b option) \<Rightarrow> 'b option" where
  "first_match [] f = None"
| "first_match (x # xs) f = (case f x of Some r \<Rightarrow> Some r | None \<Rightarrow> first_match xs f)"

definition blank_rests :: "string \<Rightarrow> string list" where
  "blank_rests s = map (\<lambda>k. drop k s) (rev [1 ..< Suc (length (takeWhile isspace s))])"

fun re_match :: "re_item list \<Rightarrow> string \<Rightarrow> (nat list \<times> string) option" where
  "re_match [] s = Some ([], s)"
| "re_match (Lit a # its) s =
     (case s of [] \<Rightarrow> None | c # cs \<Rightarrow> if c = a then re_match its cs else None)"
| "re_match (Blanks # its) s = first_match (blank_rests s) (\<lambda>r. re_match its r)"
| "re_match (Group alts # its) s =
     first_match (List.map_filter (\<lambda>alt. match_classes alt s) alts)
       (\<lambda>(txt, r). map_option (\<lambda>(vs, r'). (int_str txt # vs, r')) (re_match its r))"

text \<open>\<open>datetime.strptime(s, "%Y-%m-%d").date()\<close>; \<open>None\<close> is the \<open>ValueError\<close>.\<close>

definition strptime_date :: "string \<Rightarrow> nat option" where
  "strptime_date s =
     (case re_match [re_Y, Lit CHR ''-'', re_m, Lit CHR ''-'', re_d] s of
        Some ([y, m, d], []) \<Rightarrow>
          if check_date_fields y m d then Some (ymd2ord y m d) else None
      | _ \<Rightarrow> None)"

text \<open>\<open>datetime.strptime(s, "%Y-%m-%d %H:%M")\<close>.\<close>

definition strptime_datetime :: "string \<Rightarrow> nat option" where
  "strptime_datetime s =
     (case re_match [re_Y, Lit CHR ''-'', re_m, Lit CHR ''-'', re_d, Blanks,
                     re_H, Lit CHR '':'', re_M] s of
        Some ([y, m, d, H, M], []) \<Rightarrow>
          if check_date_fields y m d then Some (1440 * ymd2ord y m d + 60 * H + M) else None
      | _ \<Rightarrow> None)"

text \<open>\<open>strftime("%H:%M")\<close> of a \<open>datetime\<close> and \<open>strftime("%Y-%m-%d")\<close> of a \<open>date\<close>.\<close>

definition strftime_HM :: "nat \<Rightarrow> string" where
  "strftime_HM t = fmt_02d (t mod 1440 div 60) @ '':'' @ fmt_02d (t mod 60)"

definition strftime_date :: "nat \<Rightarrow> string" where
  "strftime_date ordinal =
     (case ord2ymd ordinal of (y, m, d) \<Rightarrow> fmt_04d y @ ''-'' @ fmt_02d m @ ''-'' @ fmt_02d d)"

section \<open>The bookable schedule of the host agent (\<open>medical_scheduling_tools.py\<close>)\<close>

text \<open>
  \<open>MEDICAL_APPOINTMENT_SCHEDULE\<close> maps a date string to the dictionary of that day,
  which maps a slot string to \<open>"available"\<close> or to the booking text.  A day is an
  association list, since the order of a Python dictionary is the order in which its
  keys were inserted and \<open>list_appointment_availabilities\<close> reports the slots in that
  order; assigning to a key that is present keeps its place.
\<close>

type_synonym day_schedule = "(string \<times> string) list"
type_synonym schedule = "string \<rightharpoonup> day_schedule"

record office_hours =
  start_hour :: nat
  end_hour :: nat
  appointment_duration :: nat

definition OFFICE_HOURS :: office_hours where
  "OFFICE_HOURS = \<lparr>start_hour = 8, end_hour = 17, appointment_duration = 1\<rparr>"

text \<open>\<open>d.get(key, default)\<close> on a day.\<close>

definition dict_get :: "day_schedule \<Rightarrow> string \<Rightarrow> string \<Rightarrow> string" where
  "dict_get d k dflt = (case map_of d k of None \<Rightarrow> dflt | Some v \<Rightarrow> v)"

subsection \<open>\<open>initialize_medical_schedule\<close>\<close>

definition available_time_slots :: "string list" where
  "available_time_slots =
     map (\<lambda>hour. fmt_02d hour @ '':00'') [start_hour OFFICE_HOURS ..< end_hour OFFICE_HOURS]"

text \<open>The dictionary that the comprehension builds for each day.\<close>

definition free_day :: day_schedule where
  "free_day = map (\<lambda>time_slot. (time_slot, ''available'')) available_time_slots"

text \<open>
  The loop over \<open>range(7)\<close>.  \<open>current_date + timedelta(days=day_offset)\<close> raises
  \<open>OverflowError\<close> beyond the last representable date.
\<close>

fun initialize_loop :: "nat \<Rightarrow> nat list \<Rightarrow> schedule \<Rightarrow> py_exception + schedule" where
  "initialize_loop current_date [] sched = Inr sched"
| "initialize_loop current_date (day_offset # rest) sched =
     (if current_date + day_offset > MAXORDINAL then Inl OverflowError
      else let schedule_date = current_date + day_offset;
               date_key = strftime_date schedule_date
           in initialize_loop current_date rest
                (sched(date_key \<mapsto> free_day)))"

text \<open>The first argument is \<open>date.today()\<close>, the second the global before the call.\<close>

definition initialize_medical_schedule :: "nat \<Rightarrow> schedule \<Rightarrow> py_exception + schedule" where
  "initialize_medical_schedule today sched = initialize_loop today [0 ..< 7] sched"

text \<open>The module starts from the empty dictionary and initializes it once.\<close>

definition module_schedule :: "nat \<Rightarrow> py_exception + schedule" where
  "module_schedule today = initialize_medical_schedule today Map.empty"

subsection \<open>\<open>list_appointment_availabilities\<close>\<close>

datatype error_code =
    INVALID_DATE_FORMAT
  | PAST_DATE_NOT_ALLOWED
  | MISSING_PATIENT_NAME
  | INVALID_DATETIME_FORMAT
  | INVALID_TIME_RANGE
  | DATE_NOT_AVAILABLE
  | SLOT_ALREADY_BOOKED

text \<open>
  The dictionary of a successful answer, without its message text.  The answer for a
  day that has no slots carries no counts.
\<close>

record availability_report =
  available_slots :: "string list"
  booked_appointments :: "(string \<times> string) list"
  total_slots :: nat
  available_count :: "nat option"
  booked_count :: "nat option"

definition available_of :: "day_schedule \<Rightarrow> string list" where
  "available_of d = map fst (filter (\<lambda>(time_slot, booking_status). booking_status = ''available'') d)"

definition booked_of :: "day_schedule \<Rightarrow> (string \<times> string) list" where
  "booked_of d = filter (\<lambda>(time_slot, patient_info). patient_info \<noteq> ''available'') d"

definition list_appointment_availabilities ::
  "nat \<Rightarrow> schedule \<Rightarrow> string \<Rightarrow> error_code + availability_report" where
  "list_appointment_availabilities today sched appointment_date =
     (case strptime_date appointment_date of
        None \<Rightarrow> Inl INVALID_DATE_FORMAT
      | Some parsed_date \<Rightarrow>
          if parsed_date < today then Inl PAST_DATE_NOT_ALLOWED
          else
            (case sched appointment_date of
               None \<Rightarrow>
                 Inr \<lparr>available_slots = [], booked_appointments = [], total_slots = 0,
                      available_count = None, booked_count = None\<rparr>
             | Some daily_appointment_schedule \<Rightarrow>
                 if daily_appointment_schedule = [] then
                   Inr \<lparr>available_slots = [], booked_appointments = [], total_slots = 0,
                        available_count = None, booked_count = None\<rparr>
                 else
                   Inr \<lparr>available_slots = available_of daily_appointment_schedule,
                        booked_appointments = booked_of daily_appointment_schedule,
                        total_slots = length daily_appointment_schedule,
                        available_count = Some (length (available_of daily_appointment_schedule)),
                        booked_count = Some (length (booked_of daily_appointment_schedule))\<rparr>))"

subsection \<open>\<open>book_medical_appointment\<close>\<close>

text \<open>
  The \<open>appointment_details\<close> of a confirmation; each field carries the name of
  its key after \<open>details_\<close>.
\<close>

record appointment_details =
  details_appointment_id :: string
  details_patient_name :: string
  details_appointment_type :: "string option"
  details_date :: string
  details_start_time :: string
  details_end_time :: string
  details_duration_hours :: nat
  details_booked_slots :: "string list"

text \<open>
  What the call returns: an error dictionary with its code, the error dictionary of a
  taken slot with the slot and the patient found there, or the confirmation.
\<close>

datatype booking_result =
    Failed error_code
  | Slot_Taken (conflicting_slot: string) (existing_patient: string)
  | Booked appointment_details

fun result_error_code :: "booking_result \<Rightarrow> error_code option" where
  "result_error_code (Failed e) = Some e"
| "result_error_code (Slot_Taken t p) = Some SLOT_ALREADY_BOOKED"
| "result_error_code (Booked a) = None"

text \<open>
  The \<open>while\<close> loop that collects the slot keys, one per step of
  \<open>appointment_duration\<close> hours from the start while the time is before the end.
\<close>

function required_time_slots_loop :: "nat \<Rightarrow> nat \<Rightarrow> string list \<Rightarrow> py_exception + string list" where
  "required_time_slots_loop current_slot_time appointment_end required_time_slots =
     (if current_slot_time < appointment_end then
        (if (current_slot_time + 60 * appointment_duration OFFICE_HOURS) div 1440 > MAXORDINAL
         then Inl OverflowError
         else required_time_slots_loop
                (current_slot_time + 60 * appointment_duration OFFICE_HOURS) appointment_end
                (required_time_slots @ [strftime_HM current_slot_time]))
      else Inr required_time_slots)"
  by pat_completeness auto
termination
  by (relation "measure (\<lambda>(c, e, acc). e - c)") (auto simp: OFFICE_HOURS_def)

declare required_time_slots_loop.simps [simp del]

text \<open>The first loop over the slots: the first one that is not free, with its patient.\<close>

fun first_unavailable :: "day_schedule \<Rightarrow> string list \<Rightarrow> (string \<times> string) option" where
  "first_unavailable daily_schedule [] = None"
| "first_unavailable daily_schedule (time_slot # rest) =
     (if dict_get daily_schedule time_slot ''booked'' \<noteq> ''available''
      then Some (time_slot, dict_get daily_schedule time_slot ''unknown patient'')
      else first_unavailable daily_schedule rest)"

text \<open>The second loop: every slot of the day is assigned the booking text.\<close>

fun book_slots :: "string list \<Rightarrow> string \<Rightarrow> day_schedule \<Rightarrow> day_schedule" where
  "book_slots [] patient_booking_info d = d"
| "book_slots (time_slot # rest) patient_booking_info d =
     book_slots rest patient_booking_info (AList.update time_slot patient_booking_info d)"

text \<open>\<open>f"{appointment_type}"\<close> of an optional string.\<close>

definition fmt_optional :: "string option \<Rightarrow> string" where
  "fmt_optional t = (case t of None \<Rightarrow> ''None'' | Some s \<Rightarrow> s)"

text \<open>
  The call takes the schedule and the text of a fresh \<open>uuid.uuid4()\<close>, and returns
  its answer with the schedule it leaves; an uncaught exception is \<open>Inl\<close>.
\<close>

definition book_medical_appointment ::
  "schedule \<Rightarrow> string \<Rightarrow> string \<Rightarrow> string \<Rightarrow> string \<Rightarrow> string \<Rightarrow> string option
     \<Rightarrow> (py_exception + booking_result) \<times> schedule" where
  "book_medical_appointment sched fresh_uuid appointment_date start_time end_time patient_name
     appointment_type =
     (if patient_name = [] \<or> strip patient_name = [] then (Inr (Failed MISSING_PATIENT_NAME), sched)
      else
        case (strptime_datetime (appointment_date @ '' '' @ start_time),
              strptime_datetime (appointment_date @ '' '' @ end_time)) of
          (Some appointment_start, Some appointment_end) \<Rightarrow>
            if appointment_start \<ge> appointment_end then (Inr (Failed INVALID_TIME_RANGE), sched)
            else
              (case sched appointment_date of
                 None \<Rightarrow> (Inr (Failed DATE_NOT_AVAILABLE), sched)
               | Some daily_schedule \<Rightarrow>
                   (case required_time_slots_loop appointment_start appointment_end [] of
                      Inl exn \<Rightarrow> (Inl exn, sched)
                    | Inr required_time_slots \<Rightarrow>
                        (case first_unavailable daily_schedule required_time_slots of
                           Some (time_slot, patient) \<Rightarrow> (Inr (Slot_Taken time_slot patient), sched)
                         | None \<Rightarrow>
                             let appointment_id = take 8 fresh_uuid;
                                 patient_booking_info =
                                   patient_name @ '' ('' @ fmt_optional appointment_type @ '')''
                             in (Inr (Booked
                                   \<lparr>details_appointment_id = appointment_id,
                                    details_patient_name = patient_name,
                                    details_appointment_type = appointment_type,
                                    details_date = appointment_date,
                                    details_start_time = start_time,
                                    details_end_time = end_time,
                                    details_duration_hours = length required_time_slots,
                                    details_booked_slots = required_time_slots\<rparr>),
                                 sched(appointment_date \<mapsto>
                                   book_slots required_time_slots patient_booking_info daily_schedule)))))
        | _ \<Rightarrow> (Inr (Failed INVALID_DATETIME_FORMAT), sched))"

subsection \<open>Sequences of calls\<close>

text \<open>
  After the module is loaded the schedule is touched by two functions only.  A request
  is one call with its arguments; \<open>perform\<close> gives the schedule the call leaves
  (\<open>list_appointment_availabilities\<close> has no assignment to the schedule).
\<close>

datatype request =
    Book_Request string string string string string "string option"
  | List_Request string

fun perform :: "schedule \<Rightarrow> request \<Rightarrow> schedule" where
  "perform sched (Book_Request fresh_uuid appointment_date start_time end_time patient_name
     appointment_type) =
     snd (book_medical_appointment sched fresh_uuid appointment_date start_time end_time patient_name
       appointment_type)"
| "perform sched (List_Request appointment_date) = sched"

text \<open>What a slot of a day holds, if the day and the slot exist.\<close>

definition slot_state :: "schedule \<Rightarrow> string \<Rightarrow> string \<Rightarrow> string option" where
  "slot_state sched date_key time_slot =
     (case sched date_key of None \<Rightarrow> None | Some d \<Rightarrow> map_of d time_slot)"

subsection \<open>The scenario of the specification\<close>

text \<open>
  The module loaded on 2024-07-01 (day 739068), and the same schedule after
  ``Jane Doe'' has booked 09:00 to 11:00 on that day.
\<close>

definition scenario_today :: nat where
  "scenario_today = 739068"

definition scenario_free :: schedule where
  "scenario_free = (case module_schedule scenario_today of Inr sched \<Rightarrow> sched | Inl exn \<Rightarrow> Map.empty)"

definition scenario_uuid :: string where
  "scenario_uuid = ''1b4e28ba-2fa1-41d2-883f-0016d3cca427''"

definition scenario_jane :: schedule where
  "scenario_jane =
     snd (book_medical_appointment scenario_free scenario_uuid ''2024-07-01'' ''09:00'' ''11:00''
            ''Jane Doe'' (Some ''consultation''))"

text \<open>The first of July in \<open>scenario_jane\<close>, written out.\<close>

definition jane_day :: day_schedule where
  "jane_day =
     [(''08:00'', ''available''), (''09:00'', ''Jane Doe (consultation)''),
      (''10:00'', ''Jane Doe (consultation)''), (''11:00'', ''available''),
      (''12:00'', ''available''), (''13:00'', ''available''), (''14:00'', ''available''),
      (''15:00'', ''available''), (''16:00'', ''available'')]"

section \<open>The read-only schedules of the two specialist agents\<close>

text \<open>
  Both agents keep a dictionary from a date string to the sorted list of the free
  times of that day, filled once with \<open>random.sample\<close>.  The random choice is a
  parameter: \<open>random_sample i population k\<close> is what the \<open>i\<close>-th call returns.
\<close>

type_synonym slot_lists = "string \<rightharpoonup> string list"

record neurology_office_config =
  office_hours_start :: nat
  office_hours_end :: nat
  slots_per_day :: nat
  schedule_days_ahead :: nat

definition NEUROLOGY_OFFICE_CONFIG :: neurology_office_config where
  "NEUROLOGY_OFFICE_CONFIG =
     \<lparr>office_hours_start = 8, office_hours_end = 17, slots_per_day = 6, schedule_days_ahead = 7\<rparr>"

definition office_time_slots :: "string list" where
  "office_time_slots =
     map (\<lambda>hour. fmt_02d hour @ '':00'')
       [office_hours_start NEUROLOGY_OFFICE_CONFIG ..< office_hours_end NEUROLOGY_OFFICE_CONFIG]"

fun neurologist_loop ::
  "(nat \<Rightarrow> string list \<Rightarrow> nat \<Rightarrow> string list) \<Rightarrow> nat \<Rightarrow> nat list \<Rightarrow> slot_lists
     \<Rightarrow> py_exception + slot_lists" where
  "neurologist_loop random_sample current_date [] appointment_schedule = Inr appointment_schedule"
| "neurologist_loop random_sample current_date (day_offset # rest) appointment_schedule =
     (if current_date + day_offset > MAXORDINAL then Inl OverflowError
      else let schedule_date = current_date + day_offset;
               date_key = strftime_date schedule_date;
               available_appointment_slots =
                 sort (random_sample day_offset office_time_slots
                         (slots_per_day NEUROLOGY_OFFICE_CONFIG))
           in neurologist_loop random_sample current_date rest
                (appointment_schedule(date_key \<mapsto> available_appointment_slots)))"

definition initialize_neurologist_appointment_schedule ::
  "(nat \<Rightarrow> string list \<Rightarrow> nat \<Rightarrow> string list) \<Rightarrow> nat \<Rightarrow> py_exception + slot_lists" where
  "initialize_neurologist_appointment_schedule random_sample today =
     neurologist_loop random_sample today [0 ..< schedule_days_ahead NEUROLOGY_OFFICE_CONFIG]
       Map.empty"

text \<open>
  One line of the answer: the day with its free times (joined by commas in the
  source), or the day without any.
\<close>

datatype day_availability =
    Available_At (line_date: string) (line_times: "string list")
  | No_Slots (line_date: string)

text \<open>
  The answers of the range query: the three error texts (invalid format, start after
  end, past dates), the lines joined by newlines, and the text for no line at all.
\<close>

datatype range_answer =
    Invalid_Date_Format
  | Invalid_Date_Range
  | All_Past_Dates
  | Lines "day_availability list"
  | No_Availability_Data

definition day_line :: "slot_lists \<Rightarrow> string \<Rightarrow> day_availability" where
  "day_line sched date_string =
     (let available_time_slots = (case sched date_string of None \<Rightarrow> [] | Some l \<Rightarrow> l)
      in if available_time_slots \<noteq> [] then Available_At date_string available_time_slots
         else No_Slots date_string)"

text \<open>
  \<open>check_neurologist_appointment_availability\<close>.  The days of the loop are at most the
  end date, so the addition in it cannot overflow.
\<close>

definition check_neurologist_appointment_availability ::
  "nat \<Rightarrow> slot_lists \<Rightarrow> string \<Rightarrow> string \<Rightarrow> range_answer" where
  "check_neurologist_appointment_availability today sched requested_start_date requested_end_date =
     (case strptime_date requested_start_date of
        None \<Rightarrow> Invalid_Date_Format
      | Some start_date_obj \<Rightarrow>
          (case strptime_date requested_end_date of
             None \<Rightarrow> Invalid_Date_Format
           | Some end_date_obj \<Rightarrow>
               if start_date_obj > end_date_obj then Invalid_Date_Range
               else if end_date_obj < today then All_Past_Dates
               else
                 let availability_results =
                       map (\<lambda>day_offset. day_line sched (strftime_date (start_date_obj + day_offset)))
                         [0 ..< (end_date_obj - start_date_obj) + 1]
                 in if availability_results \<noteq> [] then Lines availability_results
                    else No_Availability_Data))"

text \<open>
  \<open>generate_appointment_schedule\<close> of the pulmonologist's agent: the same loop with
  the hours 8 to 16, seven days and six slots written in place.
\<close>

definition possible_times :: "string list" where
  "possible_times = map (\<lambda>h. fmt_02d h @ '':00'') [8 ..< 17]"

fun generate_loop ::
  "(nat \<Rightarrow> string list \<Rightarrow> nat \<Rightarrow> string list) \<Rightarrow> nat \<Rightarrow> nat list \<Rightarrow> slot_lists
     \<Rightarrow> py_exception + slot_lists" where
  "generate_loop random_sample today [] schedule = Inr schedule"
| "generate_loop random_sample today (i # rest) schedule =
     (if today + i > MAXORDINAL then Inl OverflowError
      else let current_date = today + i;
               date_str = strftime_date current_date;
               available_slots = sort (random_sample i possible_times 6)
           in generate_loop random_sample today rest (schedule(date_str \<mapsto> available_slots)))"

definition generate_appointment_schedule ::
  "(nat \<Rightarrow> string list \<Rightarrow> nat \<Rightarrow> string list) \<Rightarrow> nat \<Rightarrow> py_exception + slot_lists" where
  "generate_appointment_schedule random_sample today =
     generate_loop random_sample today [0 ..< 7] Map.empty"

text \<open>
  The pulmonologist's tool takes one text, a date or two dates around \<open>to\<close>.
  \<open>split_to\<close> is \<open>str.split("to")\<close>, which cuts at every occurrence from the left.
\<close>

fun split_to :: "string \<Rightarrow> string \<Rightarrow> string list" where
  "split_to acc (a # b # cs) =
     (if a = CHR ''t'' \<and> b = CHR ''o'' then rev acc # split_to [] cs
      else split_to (a # acc) (b # cs))"
| "split_to acc [a] = [rev (a # acc)]"
| "split_to acc [] = [rev acc]"

definition pulmonologist_run :: "slot_lists \<Rightarrow> string \<Rightarrow> range_answer" where
  "pulmonologist_run sched date_range =
     (let dates_to_check = map strip (split_to [] date_range);
          start_date_str = hd dates_to_check;
          end_date_str = last dates_to_check
      in case strptime_date start_date_str of
           None \<Rightarrow> Invalid_Date_Format
         | Some start \<Rightarrow>
             (case strptime_date end_date_str of
                None \<Rightarrow> Invalid_Date_Format
              | Some end_date \<Rightarrow>
                  if start > end_date then Invalid_Date_Range
                  else Lines (map (\<lambda>i. day_line sched (strftime_date (start + i)))
                                [0 ..< (end_date - start) + 1])))"



section \<open>The two loops over the requested slots\<close>

lemma first_unavailable_None:
  "first_unavailable d ts = None \<longleftrightarrow> (\<forall>t\<in>set ts. map_of d t = Some ''available'')"
  by (induction ts) (auto simp: dict_get_def split: option.splits)

lemma first_unavailable_Some:
  "first_unavailable d ts = Some (t, p) \<Longrightarrow>
     \<exists>pre post. ts = pre @ t # post \<and> (\<forall>u\<in>set pre. map_of d u = Some ''available'') \<and>
        map_of d t \<noteq> Some ''available'' \<and> p = dict_get d t ''unknown patient''"
proof (induction ts)
  case Nil
  then show ?case by simp
next
  case (Cons a ts)
  show ?case
  proof (cases "dict_get d a ''booked'' \<noteq> ''available''")
    case True
    with Cons.prems have "t = a" "p = dict_get d a ''unknown patient''" by auto
    moreover from True have "map_of d a \<noteq> Some ''available''" by (auto simp: dict_get_def)
    ultimately have "a # ts = [] @ t # ts \<and> (\<forall>u\<in>set []. map_of d u = Some ''available'') \<and>
        map_of d t \<noteq> Some ''available'' \<and> p = dict_get d t ''unknown patient''" by simp
    then show ?thesis by blast
  next
    case False
    then have a: "map_of d a = Some ''available''" by (auto simp: dict_get_def split: option.splits)
    from False Cons.prems have "first_unavailable d ts = Some (t, p)" by simp
    from Cons.IH[OF this] obtain pre post where
      "ts = pre @ t # post" "\<forall>u\<in>set pre. map_of d u = Some ''available''"
      "map_of d t \<noteq> Some ''available''" "p = dict_get d t ''unknown patient''" by blast
    with a have "a # ts = (a # pre) @ t # post \<and> (\<forall>u\<in>set (a # pre). map_of d u = Some ''available'') \<and>
        map_of d t \<noteq> Some ''available'' \<and> p = dict_get d t ''unknown patient''" by simp
    then show ?thesis by blast
  qed
qed

lemma book_after_validation:
  assumes "patient_name \<noteq> []" "strip patient_name \<noteq> []"
    and "strptime_datetime (appointment_date @ '' '' @ start_time) = Some s"
    and "strptime_datetime (appointment_date @ '' '' @ end_time) = Some e"
    and "s < e" and "sched appointment_date = Some d"
    and "required_time_slots_loop s e [] = Inr slots"
  shows "book_medical_appointment sched fresh_uuid appointment_date start_time end_time patient_name
           appointment_type =
         (case first_unavailable d slots of
            Some (time_slot, patient) \<Rightarrow> (Inr (Slot_Taken time_slot patient), sched)
          | None \<Rightarrow>
             (Inr (Booked
                \<lparr>details_appointment_id = take 8 fresh_uuid,
                 details_patient_name = patient_name,
                 details_appointment_type = appointment_type,
                 details_date = appointment_date,
                 details_start_time = start_time,
                 details_end_time = end_time,
                 details_duration_hours = length slots,
                 details_booked_slots = slots\<rparr>),
              sched(appointment_date \<mapsto>
                book_slots slots (patient_name @ '' ('' @ fmt_optional appointment_type @ '')'') d)))"
  using assms by (simp add: book_medical_appointment_def Let_def split: option.split)

section \<open>A request that meets a slot that is not free\<close>

text \<open>
  Claim C1.  A call that passes the four checks before the slots and whose slot keys
  include one that is not \<open>"available"\<close> in the day (taken, or not a key of the day)
  answers \<open>SLOT_ALREADY_BOOKED\<close> with the first such key in the order of the loop and
  what the day holds for it (\<open>"unknown patient"\<close> when the key is absent), and
  leaves the schedule as it was.
\<close>

theorem book_conflict_atomic:
  assumes "patient_name \<noteq> []" "strip patient_name \<noteq> []"
    and "strptime_datetime (appointment_date @ '' '' @ start_time) = Some s"
    and "strptime_datetime (appointment_date @ '' '' @ end_time) = Some e"
    and "s < e" and "sched appointment_date = Some d"
    and "required_time_slots_loop s e [] = Inr slots"
    and "\<exists>t\<in>set slots. map_of d t \<noteq> Some ''available''"
  shows "\<exists>pre t post. slots = pre @ t # post \<and>
           (\<forall>u\<in>set pre. map_of d u = Some ''available'') \<and>
           map_of d t \<noteq> Some ''available'' \<and>
           book_medical_appointment sched fresh_uuid appointment_date start_time end_time patient_name
             appointment_type =
           (Inr (Slot_Taken t (case map_of d t of None \<Rightarrow> ''unknown patient'' | Some v \<Rightarrow> v)), sched)"
proof -
  from assms(8) have "first_unavailable d slots \<noteq> None"
    by (simp add: first_unavailable_None)
  then obtain t p where tp: "first_unavailable d slots = Some (t, p)" by auto
  from first_unavailable_Some[OF tp] obtain pre post where
    *: "slots = pre @ t # post" "\<forall>u\<in>set pre. map_of d u = Some ''available''"
      "map_of d t \<noteq> Some ''available''" "p = dict_get d t ''unknown patient''" by blast
  have "book_medical_appointment sched fresh_uuid appointment_date start_time end_time patient_name
             appointment_type = (Inr (Slot_Taken t p), sched)"
    using book_after_validation[where sched=sched, OF assms(1-7)] tp by simp
  with * show ?thesis unfolding dict_get_def by blast
qed


section \<open>Evaluating the scenario\<close>

lemmas strptime_eval =
  strptime_date_def strptime_datetime_def re_Y_def re_m_def re_d_def re_H_def re_M_def
  isdigit_def chr_is_def chr_in_def int_str_def strip_def isspace_def
  digit_val_def check_date_fields_def blank_rests_def ymd2ord_def days_in_month_def
  DAYS_IN_MONTH_def DAYS_BEFORE_MONTH_def days_before_month_def days_before_year_def is_leap_def

lemmas strftime_eval =
  strftime_date_def strftime_HM_def ord2ymd_def Let_def DAYS_BEFORE_MONTH_def DAYS_IN_MONTH_def
  fmt_02d_def fmt_04d_def zfill_def digit_char_def str_nat.simps


lemma available_time_slots_eval:
  "available_time_slots =
     [''08:00'', ''09:00'', ''10:00'', ''11:00'', ''12:00'', ''13:00'', ''14:00'', ''15:00'', ''16:00'']"
  by (simp add: available_time_slots_def OFFICE_HOURS_def upt_rec[of "numeral _"] strftime_eval)

lemma initialize_loop_Inr:
  "\<forall>i\<in>set offs. today + i \<le> MAXORDINAL \<Longrightarrow>
   initialize_loop today offs sched =
     Inr (\<lambda>k. if k \<in> (\<lambda>i. strftime_date (today + i)) ` set offs then Some free_day else sched k)"
proof (induction offs arbitrary: sched)
  case Nil
  then show ?case by simp
next
  case (Cons a offs)
  then show ?case
    by (auto simp: Let_def free_day_def fun_eq_iff)
qed

lemma module_schedule_Inr:
  "today + 6 \<le> MAXORDINAL \<Longrightarrow>
   module_schedule today =
     Inr (\<lambda>k. if k \<in> (\<lambda>i. strftime_date (today + i)) ` {0 ..< 7} then Some free_day else None)"
  unfolding module_schedule_def initialize_medical_schedule_def
  by (subst initialize_loop_Inr) auto

lemma scenario_free_day: "scenario_free ''2024-07-01'' = Some free_day"
proof -
  have "strftime_date (scenario_today + 0) = ''2024-07-01''"
    by (simp add: scenario_today_def strftime_eval)
  then have "''2024-07-01'' \<in> (\<lambda>i. strftime_date (scenario_today + i)) ` {0 ..< 7}"
    by (metis (no_types, lifting) atLeastLessThan_iff image_eqI zero_less_numeral le0)
  then show ?thesis
    unfolding scenario_free_def
    by (subst module_schedule_Inr) (simp_all add: scenario_today_def MAXORDINAL_def)
qed

lemma parse_0800: "strptime_datetime (''2024-07-01'' @ '' '' @ ''08:00'') = Some 1064258400"
  by (simp add: strptime_eval)
lemma parse_0900: "strptime_datetime (''2024-07-01'' @ '' '' @ ''09:00'') = Some 1064258460"
  by (simp add: strptime_eval)
lemma parse_0930: "strptime_datetime (''2024-07-01'' @ '' '' @ ''09:30'') = Some 1064258490"
  by (simp add: strptime_eval)
lemma parse_1000: "strptime_datetime (''2024-07-01'' @ '' '' @ ''10:00'') = Some 1064258520"
  by (simp add: strptime_eval)
lemma parse_1030: "strptime_datetime (''2024-07-01'' @ '' '' @ ''10:30'') = Some 1064258550"
  by (simp add: strptime_eval)
lemma parse_1100: "strptime_datetime (''2024-07-01'' @ '' '' @ ''11:00'') = Some 1064258580"
  by (simp add: strptime_eval)

lemmas loop_eval = required_time_slots_loop.simps OFFICE_HOURS_def MAXORDINAL_def strftime_eval

lemma slots_0900_1100: "required_time_slots_loop 1064258460 1064258580 [] = Inr [''09:00'', ''10:00'']"
  by (simp add: loop_eval)
lemma slots_0800_1000: "required_time_slots_loop 1064258400 1064258520 [] = Inr [''08:00'', ''09:00'']"
  by (simp add: loop_eval)
lemma slots_0930_1030: "required_time_slots_loop 1064258490 1064258550 [] = Inr [''09:30'']"
  by (simp add: loop_eval)

lemma strip_jane: "strip ''Jane Doe'' = ''Jane Doe''"
  by (simp add: strip_def isspace_def)

lemma book_jane:
  "book_medical_appointment scenario_free scenario_uuid ''2024-07-01'' ''09:00'' ''11:00''
     ''Jane Doe'' (Some ''consultation'') =
   (Inr (Booked \<lparr>details_appointment_id = ''1b4e28ba'', details_patient_name = ''Jane Doe'',
        details_appointment_type = Some ''consultation'', details_date = ''2024-07-01'',
        details_start_time = ''09:00'', details_end_time = ''11:00'',
        details_duration_hours = 2, details_booked_slots = [''09:00'', ''10:00'']\<rparr>),
    scenario_free(''2024-07-01'' \<mapsto> jane_day))"
  by (subst book_after_validation[where sched=scenario_free, OF _ _ parse_0900 parse_1100 _ scenario_free_day slots_0900_1100])
     (simp_all add: strip_jane free_day_def available_time_slots_eval dict_get_def
        scenario_uuid_def fmt_optional_def jane_day_def)

lemma scenario_jane_day: "scenario_jane ''2024-07-01'' = Some jane_day"
  by (simp add: scenario_jane_def book_jane)


lemma strip_john: "strip ''John Roe'' = ''John Roe''"
  by (simp add: strip_def isspace_def)

theorem book_conflict_atomic_witness:
  "book_medical_appointment scenario_jane scenario_uuid ''2024-07-01'' ''08:00'' ''10:00''
     ''John Roe'' None =
   (Inr (Slot_Taken ''09:00'' ''Jane Doe (consultation)''), scenario_jane)"
proof -
  have taken: "\<exists>t\<in>set [''08:00'', ''09:00'']. map_of jane_day t \<noteq> Some ''available''"
    by (simp add: jane_day_def)
  have "''John Roe'' \<noteq> []" "strip ''John Roe'' \<noteq> []" "(1064258400::nat) < 1064258520"
    by (simp_all add: strip_john)
  from book_conflict_atomic[where sched=scenario_jane and fresh_uuid=scenario_uuid
      and appointment_type=None, OF this(1,2) parse_0800 parse_1000 this(3) scenario_jane_day
      slots_0800_1000 taken]
  obtain pre t post where
    *: "[''08:00'', ''09:00''] = pre @ t # post"
       "\<forall>u\<in>set pre. map_of jane_day u = Some ''available''"
       "map_of jane_day t \<noteq> Some ''available''"
       "book_medical_appointment scenario_jane scenario_uuid ''2024-07-01'' ''08:00'' ''10:00''
          ''John Roe'' None =
        (Inr (Slot_Taken t (case map_of jane_day t of None \<Rightarrow> ''unknown patient'' | Some v \<Rightarrow> v)),
         scenario_jane)"
    by blast
  from *(1,3) have "t = ''09:00''"
    by (auto simp: Cons_eq_append_conv jane_day_def)
  with *(4) show ?thesis by (simp add: jane_day_def)
qed

section \<open>The order of the checks\<close>

text \<open>
  Claim C5.  The checks come in a fixed order, each with its own error code, and a
  failed check ends the call with the schedule unchanged: blank patient name, then a
  start or end that does not parse, then a start not before the end, then a date that
  is no key of the schedule, then a slot that is not free.
\<close>

theorem book_validation_order:
  "(patient_name = [] \<or> strip patient_name = [] \<longrightarrow>
      book_medical_appointment sched fresh_uuid appointment_date start_time end_time patient_name
        appointment_type = (Inr (Failed MISSING_PATIENT_NAME), sched))
   \<and> (patient_name \<noteq> [] \<and> strip patient_name \<noteq> [] \<and>
       (strptime_datetime (appointment_date @ '' '' @ start_time) = None \<or>
        strptime_datetime (appointment_date @ '' '' @ end_time) = None) \<longrightarrow>
      book_medical_appointment sched fresh_uuid appointment_date start_time end_time patient_name
        appointment_type = (Inr (Failed INVALID_DATETIME_FORMAT), sched))
   \<and> (patient_name \<noteq> [] \<and> strip patient_name \<noteq> [] \<and>
       strptime_datetime (appointment_date @ '' '' @ start_time) = Some s \<and>
       strptime_datetime (appointment_date @ '' '' @ end_time) = Some e \<and> e \<le> s \<longrightarrow>
      book_medical_appointment sched fresh_uuid appointment_date start_time end_time patient_name
        appointment_type = (Inr (Failed INVALID_TIME_RANGE), sched))
   \<and> (patient_name \<noteq> [] \<and> strip patient_name \<noteq> [] \<and>
       strptime_datetime (appointment_date @ '' '' @ start_time) = Some s \<and>
       strptime_datetime (appointment_date @ '' '' @ end_time) = Some e \<and> s < e \<and>
       sched appointment_date = None \<longrightarrow>
      book_medical_appointment sched fresh_uuid appointment_date start_time end_time patient_name
        appointment_type = (Inr (Failed DATE_NOT_AVAILABLE), sched))
   \<and> (patient_name \<noteq> [] \<and> strip patient_name \<noteq> [] \<and>
       strptime_datetime (appointment_date @ '' '' @ start_time) = Some s \<and>
       strptime_datetime (appointment_date @ '' '' @ end_time) = Some e \<and> s < e \<and>
       sched appointment_date = Some d \<and> required_time_slots_loop s e [] = Inr slots \<and>
       (\<exists>t\<in>set slots. map_of d t \<noteq> Some ''available'') \<longrightarrow>
      snd (book_medical_appointment sched fresh_uuid appointment_date start_time end_time patient_name
        appointment_type) = sched \<and>
      map_sum id result_error_code
        (fst (book_medical_appointment sched fresh_uuid appointment_date start_time end_time patient_name
           appointment_type)) = Inr (Some SLOT_ALREADY_BOOKED))
   \<and> distinct [MISSING_PATIENT_NAME, INVALID_DATETIME_FORMAT, INVALID_TIME_RANGE,
        DATE_NOT_AVAILABLE, SLOT_ALREADY_BOOKED]"
proof (intro conjI impI)
  assume "patient_name = [] \<or> strip patient_name = []"
  then show "book_medical_appointment sched fresh_uuid appointment_date start_time end_time patient_name
        appointment_type = (Inr (Failed MISSING_PATIENT_NAME), sched)"
    by (auto simp: book_medical_appointment_def)
next
  assume "patient_name \<noteq> [] \<and> strip patient_name \<noteq> [] \<and>
       (strptime_datetime (appointment_date @ '' '' @ start_time) = None \<or>
        strptime_datetime (appointment_date @ '' '' @ end_time) = None)"
  then show "book_medical_appointment sched fresh_uuid appointment_date start_time end_time patient_name
        appointment_type = (Inr (Failed INVALID_DATETIME_FORMAT), sched)"
    by (auto simp: book_medical_appointment_def split: option.splits)
next
  assume "patient_name \<noteq> [] \<and> strip patient_name \<noteq> [] \<and>
       strptime_datetime (appointment_date @ '' '' @ start_time) = Some s \<and>
       strptime_datetime (appointment_date @ '' '' @ end_time) = Some e \<and> e \<le> s"
  then show "book_medical_appointment sched fresh_uuid appointment_date start_time end_time patient_name
        appointment_type = (Inr (Failed INVALID_TIME_RANGE), sched)"
    by (simp add: book_medical_appointment_def)
next
  assume "patient_name \<noteq> [] \<and> strip patient_name \<noteq> [] \<and>
       strptime_datetime (appointment_date @ '' '' @ start_time) = Some s \<and>
       strptime_datetime (appointment_date @ '' '' @ end_time) = Some e \<and> s < e \<and>
       sched appointment_date = None"
  then show "book_medical_appointment sched fresh_uuid appointment_date start_time end_time patient_name
        appointment_type = (Inr (Failed DATE_NOT_AVAILABLE), sched)"
    by (simp add: book_medical_appointment_def)
next
  assume a: "patient_name \<noteq> [] \<and> strip patient_name \<noteq> [] \<and>
       strptime_datetime (appointment_date @ '' '' @ start_time) = Some s \<and>
       strptime_datetime (appointment_date @ '' '' @ end_time) = Some e \<and> s < e \<and>
       sched appointment_date = Some d \<and> required_time_slots_loop s e [] = Inr slots \<and>
       (\<exists>t\<in>set slots. map_of d t \<noteq> Some ''available'')"
  then have "first_unavailable d slots \<noteq> None"
    by (simp add: first_unavailable_None)
  then obtain t p where tp: "first_unavailable d slots = Some (t, p)" by auto
  have r: "book_medical_appointment sched fresh_uuid appointment_date start_time end_time patient_name
        appointment_type = (Inr (Slot_Taken t p), sched)"
    using a tp by (simp add: book_after_validation[where sched=sched and d=d and slots=slots])
  show "snd (book_medical_appointment sched fresh_uuid appointment_date start_time end_time patient_name
        appointment_type) = sched" by (simp add: r)
  show "map_sum id result_error_code
        (fst (book_medical_appointment sched fresh_uuid appointment_date start_time end_time patient_name
           appointment_type)) = Inr (Some SLOT_ALREADY_BOOKED)" by (simp add: r)
next
  show "distinct [MISSING_PATIENT_NAME, INVALID_DATETIME_FORMAT, INVALID_TIME_RANGE,
        DATE_NOT_AVAILABLE, SLOT_ALREADY_BOOKED]" by simp
qed


lemma strptime_bad: "strptime_datetime (''2024-07-01'' @ '' '' @ ''9am'') = None"
  by (simp add: strptime_eval)

lemma strptime_other_day: "strptime_datetime (''2024-08-15'' @ '' '' @ ''09:00'') = Some 1064323260"
  "strptime_datetime (''2024-08-15'' @ '' '' @ ''11:00'') = Some 1064323380"
  by (simp_all add: strptime_eval)

lemma scenario_free_other_day: "scenario_free ''2024-08-15'' = None"
proof -
  have "\<And>i. i < 7 \<Longrightarrow> strftime_date (scenario_today + i) \<noteq> ''2024-08-15''"
  proof -
    fix i :: nat assume "i < 7"
    then consider "i = 0" | "i = 1" | "i = 2" | "i = 3" | "i = 4" | "i = 5" | "i = 6" by linarith
    then show "strftime_date (scenario_today + i) \<noteq> ''2024-08-15''"
      by cases (simp_all add: scenario_today_def strftime_eval)
  qed
  then have "''2024-08-15'' \<notin> (\<lambda>i. strftime_date (scenario_today + i)) ` {0 ..< 7}"
    by (auto simp del: One_nat_def dest!: sym[of "''2024-08-15''"])
  then show ?thesis
    unfolding scenario_free_def
    by (subst module_schedule_Inr) (simp_all add: scenario_today_def MAXORDINAL_def)
qed

lemma scenario_jane_other_day: "scenario_jane ''2024-08-15'' = None"
  by (simp add: scenario_jane_def book_jane scenario_free_other_day)

theorem book_validation_order_witness:
  "book_medical_appointment scenario_jane scenario_uuid ''2024-07-01'' ''09:00'' ''11:00''
     ''   '' None = (Inr (Failed MISSING_PATIENT_NAME), scenario_jane)
   \<and> book_medical_appointment scenario_jane scenario_uuid ''2024-07-01'' ''9am'' ''11:00''
       ''John Roe'' None = (Inr (Failed INVALID_DATETIME_FORMAT), scenario_jane)
   \<and> book_medical_appointment scenario_jane scenario_uuid ''2024-07-01'' ''11:00'' ''09:00''
       ''John Roe'' None = (Inr (Failed INVALID_TIME_RANGE), scenario_jane)
   \<and> book_medical_appointment scenario_jane scenario_uuid ''2024-08-15'' ''09:00'' ''11:00''
       ''John Roe'' None = (Inr (Failed DATE_NOT_AVAILABLE), scenario_jane)
   \<and> (snd (book_medical_appointment scenario_jane scenario_uuid ''2024-07-01'' ''08:00'' ''10:00''
       ''John Roe'' None) = scenario_jane
     \<and> map_sum id result_error_code
       (fst (book_medical_appointment scenario_jane scenario_uuid ''2024-07-01'' ''08:00'' ''10:00''
          ''John Roe'' None)) = Inr (Some SLOT_ALREADY_BOOKED))"
proof (intro conjI)
  have blank: "strip ''   '' = []" by (simp add: strip_def isspace_def)
  show "book_medical_appointment scenario_jane scenario_uuid ''2024-07-01'' ''09:00'' ''11:00''
     ''   '' None = (Inr (Failed MISSING_PATIENT_NAME), scenario_jane)"
    by (rule book_validation_order[THEN conjunct1, THEN mp]) (simp add: blank)
  show "book_medical_appointment scenario_jane scenario_uuid ''2024-07-01'' ''9am'' ''11:00''
       ''John Roe'' None = (Inr (Failed INVALID_DATETIME_FORMAT), scenario_jane)"
    by (rule book_validation_order[THEN conjunct2, THEN conjunct1, THEN mp])
       (simp only: strip_john strptime_bad, simp)
  show "book_medical_appointment scenario_jane scenario_uuid ''2024-07-01'' ''11:00'' ''09:00''
       ''John Roe'' None = (Inr (Failed INVALID_TIME_RANGE), scenario_jane)"
    by (rule book_validation_order[where s=1064258580 and e=1064258460,
          THEN conjunct2, THEN conjunct2, THEN conjunct1, THEN mp])
       (simp only: strip_john parse_0900 parse_1100, simp)
  show "book_medical_appointment scenario_jane scenario_uuid ''2024-08-15'' ''09:00'' ''11:00''
       ''John Roe'' None = (Inr (Failed DATE_NOT_AVAILABLE), scenario_jane)"
    by (rule book_validation_order[where s=1064323260 and e=1064323380,
          THEN conjunct2, THEN conjunct2, THEN conjunct2, THEN conjunct1, THEN mp])
       (simp only: strip_john strptime_other_day scenario_jane_other_day, simp)
  have taken: "\<exists>t\<in>set [''08:00'', ''09:00'']. map_of jane_day t \<noteq> Some ''available''"
    by (simp add: jane_day_def)
  have last_check: "''John Roe'' \<noteq> [] \<and> strip ''John Roe'' \<noteq> [] \<and>
       strptime_datetime (''2024-07-01'' @ '' '' @ ''08:00'') = Some 1064258400 \<and>
       strptime_datetime (''2024-07-01'' @ '' '' @ ''10:00'') = Some 1064258520 \<and>
       (1064258400::nat) < 1064258520 \<and>
       scenario_jane ''2024-07-01'' = Some jane_day \<and>
       required_time_slots_loop 1064258400 1064258520 [] = Inr [''08:00'', ''09:00''] \<and>
       (\<exists>t\<in>set [''08:00'', ''09:00'']. map_of jane_day t \<noteq> Some ''available'')"
    by (simp only: strip_john parse_0800 parse_1000 scenario_jane_day slots_0800_1000 taken, simp)
  from book_validation_order[where sched=scenario_jane and fresh_uuid=scenario_uuid
      and appointment_type=None, THEN conjunct2, THEN conjunct2, THEN conjunct2, THEN conjunct2,
      THEN conjunct1, THEN mp, OF last_check]
  show "snd (book_medical_appointment scenario_jane scenario_uuid ''2024-07-01'' ''08:00'' ''10:00''
       ''John Roe'' None) = scenario_jane"
    and "map_sum id result_error_code
       (fst (book_medical_appointment scenario_jane scenario_uuid ''2024-07-01'' ''08:00'' ''10:00''
          ''John Roe'' None)) = Inr (Some SLOT_ALREADY_BOOKED)"
    by simp_all
qed

section \<open>The checks of the availability query\<close>

text \<open>
  Claim C6.  \<open>list_appointment_availabilities\<close> answers \<open>INVALID_DATE_FORMAT\<close> when
  the text is no date, \<open>PAST_DATE_NOT_ALLOWED\<close> when the date is before today, and
  succeeds otherwise, today included; for a date without an entry the answer is the
  empty report with no slots.
\<close>

theorem list_availability_validation:
  "(strptime_date appointment_date = None \<longrightarrow>
      list_appointment_availabilities today sched appointment_date = Inl INVALID_DATE_FORMAT)
   \<and> (strptime_date appointment_date = Some parsed_date \<and> parsed_date < today \<longrightarrow>
      list_appointment_availabilities today sched appointment_date = Inl PAST_DATE_NOT_ALLOWED)
   \<and> (strptime_date appointment_date = Some parsed_date \<and> today \<le> parsed_date \<longrightarrow>
      (\<exists>report. list_appointment_availabilities today sched appointment_date = Inr report))
   \<and> (strptime_date appointment_date = Some today \<longrightarrow>
      (\<exists>report. list_appointment_availabilities today sched appointment_date = Inr report))
   \<and> (strptime_date appointment_date = Some parsed_date \<and> today \<le> parsed_date \<and>
       sched appointment_date = None \<longrightarrow>
      list_appointment_availabilities today sched appointment_date =
        Inr \<lparr>available_slots = [], booked_appointments = [], total_slots = 0,
             available_count = None, booked_count = None\<rparr>)"
  by (auto simp: list_appointment_availabilities_def split: option.splits)

lemma date_eval:
  "strptime_date ''2024-07-01'' = Some 739068"
  "strptime_date ''2024-06-30'' = Some 739067"
  "strptime_date ''2024-08-15'' = Some 739113"
  "strptime_date ''07/01/2024'' = None"
  by (simp_all add: strptime_eval)


theorem list_availability_validation_witness:
  "list_appointment_availabilities scenario_today scenario_jane ''07/01/2024'' =
     Inl INVALID_DATE_FORMAT
   \<and> list_appointment_availabilities scenario_today scenario_jane ''2024-06-30'' =
       Inl PAST_DATE_NOT_ALLOWED
   \<and> (\<exists>report. list_appointment_availabilities scenario_today scenario_jane ''2024-07-01'' =
         Inr report)
   \<and> list_appointment_availabilities scenario_today scenario_jane ''2024-08-15'' =
       Inr \<lparr>available_slots = [], booked_appointments = [], total_slots = 0,
            available_count = None, booked_count = None\<rparr>"
proof (intro conjI)
  show "list_appointment_availabilities scenario_today scenario_jane ''07/01/2024'' =
     Inl INVALID_DATE_FORMAT"
    by (rule list_availability_validation[THEN conjunct1, THEN mp]) (rule date_eval)
  show "list_appointment_availabilities scenario_today scenario_jane ''2024-06-30'' =
       Inl PAST_DATE_NOT_ALLOWED"
    by (rule list_availability_validation[where parsed_date=739067, THEN conjunct2, THEN conjunct1,
          THEN mp]) (simp add: date_eval scenario_today_def)
  show "\<exists>report. list_appointment_availabilities scenario_today scenario_jane ''2024-07-01'' =
         Inr report"
    by (rule list_availability_validation[THEN conjunct2, THEN conjunct2, THEN conjunct2,
          THEN conjunct1, THEN mp]) (simp add: date_eval scenario_today_def)
  show "list_appointment_availabilities scenario_today scenario_jane ''2024-08-15'' =
       Inr \<lparr>available_slots = [], booked_appointments = [], total_slots = 0,
            available_count = None, booked_count = None\<rparr>"
    by (rule list_availability_validation[where parsed_date=739113, THEN conjunct2, THEN conjunct2,
          THEN conjunct2, THEN conjunct2, THEN mp])
       (simp add: date_eval scenario_today_def scenario_jane_other_day)
qed



section \<open>The slot keys of a request\<close>

lemma required_time_slots_loop_Inr:
  "required_time_slots_loop c e acc = Inr slots \<Longrightarrow>
   slots = acc @ map (\<lambda>k. strftime_HM (c + 60 * k)) [0 ..< (e - c + 59) div 60]"
proof (induction c e acc rule: required_time_slots_loop.induct)
  case (1 c e acc)
  show ?case
  proof (cases "c < e")
    case True
    from "1.prems" True have no: "\<not> MAXORDINAL < (c + 60 * appointment_duration OFFICE_HOURS) div 1440"
      and r: "required_time_slots_loop (c + 60 * appointment_duration OFFICE_HOURS) e
                (acc @ [strftime_HM c]) = Inr slots"
      by (auto simp: required_time_slots_loop.simps[of c] split: if_splits)
    from "1.IH"[OF True no r]
    have "slots = (acc @ [strftime_HM c]) @
            map (\<lambda>k. strftime_HM (c + 60 + 60 * k)) [0 ..< (e - (c + 60) + 59) div 60]"
      by (simp add: OFFICE_HOURS_def)
    moreover have "(e - c + 59) div 60 = Suc ((e - (c + 60) + 59) div 60)"
    proof (cases "e \<le> c + 60")
      case True
      with \<open>c < e\<close> have "(e - c + 59) div 60 = 1" by simp
      with True show ?thesis by simp
    next
      case False
      then have "e - c + 59 = (e - (c + 60) + 59) + 60" by simp
      then show ?thesis by (simp only: div_add_self2)
    qed
    moreover have "\<And>k. c + 60 + 60 * k = c + 60 * Suc k" by simp
    ultimately show ?thesis
      by (simp only: map_upt_Suc append_assoc append_Cons append_Nil mult_0_right add_0_right)
  next
    case False
    with "1.prems" have "slots = acc"
      by (simp add: required_time_slots_loop.simps[of c])
    moreover from False have "(e - c + 59) div 60 = 0" by simp
    ultimately show ?thesis by simp
  qed
qed


lemma strftime_HM_step:
  "strftime_HM (s + 60 * k) = fmt_02d ((s + 60 * k) mod 1440 div 60) @ '':'' @ fmt_02d (s mod 60)"
  by (simp add: strftime_HM_def)

lemma book_0930:
  "book_medical_appointment scenario_jane scenario_uuid ''2024-07-01'' ''09:30'' ''10:30''
     ''John Roe'' (Some ''consultation'') =
   (Inr (Slot_Taken ''09:30'' ''unknown patient''), scenario_jane)"
  by (subst book_after_validation[where sched=scenario_jane, OF _ _ parse_0930 parse_1030 _
        scenario_jane_day slots_0930_1030])
     (simp_all add: strip_john jane_day_def dict_get_def)

text \<open>
  Claim C3, as the code has it.  The slot keys of a request are the start time and
  every full hour after it that is before the end time, written \<open>HH:MM\<close>: each key
  keeps the minutes of the start time, so the keys are on the hour only when the start
  is.  In the scenario, with 09:00 to 11:00 booked, a request for 09:30 to 10:30 fails
  with \<open>SLOT_ALREADY_BOOKED\<close> for the slot \<open>09:30\<close>, which is no key of the day, and
  the patient reported is \<open>"unknown patient"\<close>.
\<close>

theorem derived_slot_keys:
  assumes "required_time_slots_loop s e [] = Inr slots"
  shows "slots = map (\<lambda>k. fmt_02d ((s + 60 * k) mod 1440 div 60) @ '':'' @ fmt_02d (s mod 60))
                   [0 ..< (e - s + 59) div 60]
         \<and> book_medical_appointment scenario_jane scenario_uuid ''2024-07-01'' ''09:30'' ''10:30''
             ''John Roe'' (Some ''consultation'') =
           (Inr (Slot_Taken ''09:30'' ''unknown patient''), scenario_jane)"
  using required_time_slots_loop_Inr[OF assms] book_0930
  by (simp add: strftime_HM_step)

theorem derived_slot_keys_witness:
  "[''09:30''] = map (\<lambda>k. fmt_02d ((1064258490 + 60 * k) mod 1440 div 60) @ '':'' @
                         fmt_02d (1064258490 mod 60))
                   [0 ..< (1064258550 - 1064258490 + 59) div 60]
   \<and> book_medical_appointment scenario_jane scenario_uuid ''2024-07-01'' ''09:30'' ''10:30''
             ''John Roe'' (Some ''consultation'') =
           (Inr (Slot_Taken ''09:30'' ''unknown patient''), scenario_jane)"
  by (rule derived_slot_keys[OF slots_0930_1030])

text \<open>
  The claim as the specification states it fails in its own scenario: the slot
  reported is \<open>09:30\<close>, not \<open>09:00\<close>, and \<open>09:30\<close> is not one of the hourly keys.
\<close>

theorem grid_aligned_counterexample:
  "fst (book_medical_appointment scenario_jane scenario_uuid ''2024-07-01'' ''09:30'' ''10:30''
          ''John Roe'' (Some ''consultation'')) =
     Inr (Slot_Taken ''09:30'' ''unknown patient'')
   \<and> fst (book_medical_appointment scenario_jane scenario_uuid ''2024-07-01'' ''09:30'' ''10:30''
          ''John Roe'' (Some ''consultation'')) \<noteq>
     Inr (Slot_Taken ''09:00'' ''Jane Doe (consultation)'')
   \<and> ''09:30'' \<notin> set available_time_slots"
  by (simp add: book_0930 available_time_slots_eval)


section \<open>What a booking writes\<close>

lemma map_of_book_slots:
  "map_of (book_slots ts info d) k = (if k \<in> set ts then Some info else map_of d k)"
  by (induction ts arbitrary: d) (auto simp: update_conv')

lemma distinct_book_slots:
  "distinct (map fst d) \<Longrightarrow> distinct (map fst (book_slots ts info d))"
  by (induction ts arbitrary: d) (auto simp: distinct_update)

lemma booking_info_not_available:
  "patient_name @ '' ('' @ t @ '')'' \<noteq> ''available''"
proof
  assume "patient_name @ '' ('' @ t @ '')'' = ''available''"
  then have "last (patient_name @ '' ('' @ t @ '')'') = last ''available''" by simp
  then show False by simp
qed

lemma available_of_iff:
  "distinct (map fst d) \<Longrightarrow> t \<in> set (available_of d) \<longleftrightarrow> map_of d t = Some ''available''"
  by (auto simp: available_of_def image_iff)

lemma booked_of_iff:
  "(t, v) \<in> set (booked_of d) \<longleftrightarrow> (t, v) \<in> set d \<and> v \<noteq> ''available''"
  by (auto simp: booked_of_def)

text \<open>What a confirmation says about the call that gave it.\<close>

lemma book_Booked_cases:
  assumes "book_medical_appointment sched fresh_uuid appointment_date start_time end_time
             patient_name appointment_type = (Inr (Booked a), sched')"
  obtains s e d slots where
    "patient_name \<noteq> []" "strip patient_name \<noteq> []"
    "strptime_datetime (appointment_date @ '' '' @ start_time) = Some s"
    "strptime_datetime (appointment_date @ '' '' @ end_time) = Some e"
    "s < e" "sched appointment_date = Some d"
    "required_time_slots_loop s e [] = Inr slots"
    "first_unavailable d slots = None"
    "details_booked_slots a = slots"
    "sched' = sched(appointment_date \<mapsto>
       book_slots slots (patient_name @ '' ('' @ fmt_optional appointment_type @ '')'') d)"
  using assms
  by (auto simp: book_medical_appointment_def Let_def
           split: if_splits option.splits sum.splits prod.splits)

lemma book_unchanged_or_Booked:
  "snd (book_medical_appointment sched fresh_uuid appointment_date start_time end_time
          patient_name appointment_type) = sched \<or>
   (\<exists>a. fst (book_medical_appointment sched fresh_uuid appointment_date start_time end_time
          patient_name appointment_type) = Inr (Booked a))"
  by (auto simp: book_medical_appointment_def Let_def
           split: if_splits option.splits sum.splits prod.splits)


text \<open>
  Claim C8.  When every slot key of the request is \<open>"available"\<close>, the call returns
  the confirmation with the patient, the type, the date, the start and end as given,
  the first eight characters of the fresh UUID text, the number of slot keys and the
  slot keys; in the scenario, 09:00 to 11:00 on the free first of July gives two slots,
  \<open>09:00\<close> and \<open>10:00\<close>.
\<close>

theorem book_success_details:
  assumes "patient_name \<noteq> []" "strip patient_name \<noteq> []"
    and "strptime_datetime (appointment_date @ '' '' @ start_time) = Some s"
    and "strptime_datetime (appointment_date @ '' '' @ end_time) = Some e"
    and "s < e" and "sched appointment_date = Some d"
    and "required_time_slots_loop s e [] = Inr slots"
    and "\<forall>t\<in>set slots. map_of d t = Some ''available''"
    and "length fresh_uuid = 36"
  shows "fst (book_medical_appointment sched fresh_uuid appointment_date start_time end_time
                patient_name appointment_type) =
         Inr (Booked
           \<lparr>details_appointment_id = take 8 fresh_uuid,
            details_patient_name = patient_name,
            details_appointment_type = appointment_type,
            details_date = appointment_date,
            details_start_time = start_time,
            details_end_time = end_time,
            details_duration_hours = length slots,
            details_booked_slots = slots\<rparr>)
         \<and> length (take 8 fresh_uuid) = 8
         \<and> fst (book_medical_appointment scenario_free scenario_uuid ''2024-07-01'' ''09:00''
                  ''11:00'' ''Jane Doe'' (Some ''consultation'')) =
           Inr (Booked
             \<lparr>details_appointment_id = ''1b4e28ba'', details_patient_name = ''Jane Doe'',
              details_appointment_type = Some ''consultation'', details_date = ''2024-07-01'',
              details_start_time = ''09:00'', details_end_time = ''11:00'',
              details_duration_hours = 2, details_booked_slots = [''09:00'', ''10:00'']\<rparr>)"
proof -
  from assms(8) have "first_unavailable d slots = None"
    by (simp add: first_unavailable_None)
  then show ?thesis
    using book_after_validation[where sched=sched, OF assms(1-7)] assms(9)
    by (simp add: book_jane)
qed

theorem book_success_details_witness:
  "fst (book_medical_appointment scenario_jane scenario_uuid ''2024-07-01'' ''11:00'' ''12:00''
          ''John Roe'' None) =
     Inr (Booked
       \<lparr>details_appointment_id = ''1b4e28ba'', details_patient_name = ''John Roe'',
        details_appointment_type = None, details_date = ''2024-07-01'',
        details_start_time = ''11:00'', details_end_time = ''12:00'',
        details_duration_hours = 1, details_booked_slots = [''11:00'']\<rparr>)"
proof -
  have p: "strptime_datetime (''2024-07-01'' @ '' '' @ ''12:00'') = Some 1064258640"
    by (simp add: strptime_eval)
  have l: "required_time_slots_loop 1064258580 1064258640 [] = Inr [''11:00'']"
    by (simp add: loop_eval)
  have "''John Roe'' \<noteq> []" "strip ''John Roe'' \<noteq> []" "(1064258580::nat) < 1064258640"
    "\<forall>t\<in>set [''11:00'']. map_of jane_day t = Some ''available''"
    "length scenario_uuid = 36"
    by (simp_all add: strip_john jane_day_def scenario_uuid_def)
  from book_success_details[where sched=scenario_jane and appointment_type=None,
      OF this(1,2) parse_1100 p this(3) scenario_jane_day l this(4,5)]
  show ?thesis by (simp add: scenario_uuid_def)
qed

text \<open>
  Claim C9.  The text a booking stores ends with a closing bracket, so it is never
  \<open>"available"\<close>; after a successful call every slot of the booking holds that text,
  is not among the available slots of the day and is among its booked appointments.
\<close>

theorem booked_value_is_not_the_marker:
  assumes "book_medical_appointment sched fresh_uuid appointment_date start_time end_time
             patient_name appointment_type = (Inr (Booked a), sched')"
    and "\<forall>d. sched appointment_date = Some d \<longrightarrow> distinct (map fst d)"
  shows "patient_name @ '' ('' @ fmt_optional appointment_type @ '')'' \<noteq> ''available''
         \<and> (\<exists>d'. sched' appointment_date = Some d' \<and> distinct (map fst d') \<and>
               (\<forall>t\<in>set (details_booked_slots a).
                  map_of d' t = Some (patient_name @ '' ('' @ fmt_optional appointment_type @ '')'') \<and>
                  t \<notin> set (available_of d') \<and>
                  (t, patient_name @ '' ('' @ fmt_optional appointment_type @ '')'')
                    \<in> set (booked_of d')))"
proof -
  define info where "info = patient_name @ '' ('' @ fmt_optional appointment_type @ '')''"
  have ne: "info \<noteq> ''available''"
    unfolding info_def by (rule booking_info_not_available)
  from assms(1) obtain s e d slots where
    d: "sched appointment_date = Some d" and
    slots: "details_booked_slots a = slots" and
    sched': "sched' = sched(appointment_date \<mapsto> book_slots slots info d)"
    unfolding info_def by (rule book_Booked_cases)
  define d' where "d' = book_slots slots info d"
  from d assms(2) have dist: "distinct (map fst d')"
    by (simp add: d'_def distinct_book_slots)
  have "\<forall>t\<in>set slots. map_of d' t = Some info \<and> t \<notin> set (available_of d') \<and>
          (t, info) \<in> set (booked_of d')"
  proof
    fix t assume "t \<in> set slots"
    then have m: "map_of d' t = Some info" by (simp add: d'_def map_of_book_slots)
    then have "t \<notin> set (available_of d')"
      using ne by (simp add: available_of_iff[OF dist])
    moreover from m have "(t, info) \<in> set d'" by (rule map_of_SomeD)
    then have "(t, info) \<in> set (booked_of d')" using ne by (simp add: booked_of_iff)
    ultimately show "map_of d' t = Some info \<and> t \<notin> set (available_of d') \<and>
          (t, info) \<in> set (booked_of d')" using m by simp
  qed
  moreover have "sched' appointment_date = Some d'" by (simp add: sched' d'_def)
  ultimately have "info \<noteq> ''available'' \<and>
      (\<exists>d'. sched' appointment_date = Some d' \<and> distinct (map fst d') \<and>
               (\<forall>t\<in>set (details_booked_slots a).
                  map_of d' t = Some info \<and> t \<notin> set (available_of d') \<and>
                  (t, info) \<in> set (booked_of d')))"
    using ne dist slots by blast
  then show ?thesis unfolding info_def .
qed


lemma scenario_jane_eq: "scenario_jane = scenario_free(''2024-07-01'' \<mapsto> jane_day)"
  by (simp add: scenario_jane_def book_jane)

theorem booked_value_is_not_the_marker_witness:
  "''Jane Doe'' @ '' ('' @ fmt_optional (Some ''consultation'') @ '')'' \<noteq> ''available''
   \<and> (\<exists>d'. scenario_jane ''2024-07-01'' = Some d' \<and> distinct (map fst d') \<and>
         (\<forall>t\<in>set [''09:00'', ''10:00''].
            map_of d' t = Some (''Jane Doe'' @ '' ('' @ fmt_optional (Some ''consultation'') @ '')'') \<and>
            t \<notin> set (available_of d') \<and>
            (t, ''Jane Doe'' @ '' ('' @ fmt_optional (Some ''consultation'') @ '')'')
              \<in> set (booked_of d')))"
proof -
  have "\<forall>d. scenario_free ''2024-07-01'' = Some d \<longrightarrow> distinct (map fst d)"
    by (simp add: scenario_free_day free_day_def available_time_slots_eval)
  from booked_value_is_not_the_marker[OF book_jane this]
  show ?thesis unfolding scenario_jane_eq by simp
qed

section \<open>Slots that are taken stay taken\<close>

lemma book_keeps_taken:
  assumes "slot_state sched dk tk = Some v" and "v \<noteq> ''available''"
  shows "slot_state (snd (book_medical_appointment sched fresh_uuid appointment_date start_time
           end_time patient_name appointment_type)) dk tk = Some v"
proof (cases "\<exists>a. fst (book_medical_appointment sched fresh_uuid appointment_date start_time
           end_time patient_name appointment_type) = Inr (Booked a)")
  case False
  with book_unchanged_or_Booked[of sched fresh_uuid appointment_date start_time end_time
      patient_name appointment_type]
  show ?thesis using assms(1) by simp
next
  case True
  then obtain a where "book_medical_appointment sched fresh_uuid appointment_date start_time
      end_time patient_name appointment_type =
      (Inr (Booked a), snd (book_medical_appointment sched fresh_uuid appointment_date start_time
           end_time patient_name appointment_type))"
    by (metis prod.collapse)
  then obtain s e d slots where
    d: "sched appointment_date = Some d" and
    free: "first_unavailable d slots = None" and
    sched': "snd (book_medical_appointment sched fresh_uuid appointment_date start_time
           end_time patient_name appointment_type) =
       sched(appointment_date \<mapsto>
         book_slots slots (patient_name @ '' ('' @ fmt_optional appointment_type @ '')'') d)"
    by (rule book_Booked_cases)
  show ?thesis
  proof (cases "dk = appointment_date")
    case True
    with assms(1) d have v: "map_of d tk = Some v" by (simp add: slot_state_def)
    with assms(2) free have "tk \<notin> set slots"
      by (auto simp: first_unavailable_None)
    with v True show ?thesis
      unfolding sched' slot_state_def by (simp only: fun_upd_same option.case map_of_book_slots if_False)
  next
    case False
    with assms(1) show ?thesis
      unfolding sched' slot_state_def by simp
  qed
qed

lemma perform_keeps_taken:
  "slot_state sched dk tk = Some v \<Longrightarrow> v \<noteq> ''available'' \<Longrightarrow>
   slot_state (perform sched request) dk tk = Some v"
  by (cases request) (simp_all add: book_keeps_taken)

lemma run_keeps_taken:
  "slot_state sched dk tk = Some v \<Longrightarrow> v \<noteq> ''available'' \<Longrightarrow>
   slot_state (foldl perform sched requests) dk tk = Some v"
  by (induction requests arbitrary: sched) (simp_all add: perform_keeps_taken)

lemma book_marks_slots:
  assumes "book_medical_appointment sched fresh_uuid appointment_date start_time end_time
             patient_name appointment_type = (Inr (Booked a), sched')"
    and "t \<in> set (details_booked_slots a)"
  shows "slot_state sched' appointment_date t =
           Some (patient_name @ '' ('' @ fmt_optional appointment_type @ '')'')"
proof -
  from assms(1) obtain s e d slots where
    "details_booked_slots a = slots"
    "sched' = sched(appointment_date \<mapsto>
       book_slots slots (patient_name @ '' ('' @ fmt_optional appointment_type @ '')'') d)"
    by (rule book_Booked_cases)
  with assms(2) show ?thesis
    unfolding slot_state_def by (simp only: fun_upd_same option.case map_of_book_slots if_True)
qed

text \<open>
  Claim C2.  Once a call has booked a slot, then after any further calls a request for
  the same date whose slot keys include that slot and that passes the checks before
  the slots fails with \<open>SLOT_ALREADY_BOOKED\<close> and leaves the schedule as it was; and no
  call changes what a slot holds once that is not \<open>"available"\<close>.
\<close>

theorem no_double_booking:
  assumes "book_medical_appointment sched first_uuid appointment_date first_start first_end
             first_patient first_type = (Inr (Booked a), sched1)"
    and "time_slot \<in> set (details_booked_slots a)"
    and "patient_name \<noteq> []" "strip patient_name \<noteq> []"
    and "strptime_datetime (appointment_date @ '' '' @ start_time) = Some s"
    and "strptime_datetime (appointment_date @ '' '' @ end_time) = Some e"
    and "s < e"
    and "required_time_slots_loop s e [] = Inr slots"
    and "time_slot \<in> set slots"
  shows "(\<exists>t p. book_medical_appointment (foldl perform sched1 requests) fresh_uuid
                  appointment_date start_time end_time patient_name appointment_type =
                (Inr (Slot_Taken t p), foldl perform sched1 requests))
         \<and> (\<forall>sched0 request date_key slot v.
               slot_state sched0 date_key slot = Some v \<and> v \<noteq> ''available'' \<longrightarrow>
               slot_state (perform sched0 request) date_key slot = Some v)"
proof
  define info where "info = first_patient @ '' ('' @ fmt_optional first_type @ '')''"
  have ne: "info \<noteq> ''available''" unfolding info_def by (rule booking_info_not_available)
  have "slot_state sched1 appointment_date time_slot = Some info"
    unfolding info_def by (rule book_marks_slots[OF assms(1,2)])
  then have later: "slot_state (foldl perform sched1 requests) appointment_date time_slot = Some info"
    using ne by (rule run_keeps_taken)
  then obtain d where d: "foldl perform sched1 requests appointment_date = Some d"
    and t: "map_of d time_slot = Some info"
    by (auto simp: slot_state_def split: option.splits)
  from t ne have "map_of d time_slot \<noteq> Some ''available''" by simp
  with assms(9) have "\<exists>t\<in>set slots. map_of d t \<noteq> Some ''available''" by blast
  then have "first_unavailable d slots \<noteq> None" by (simp add: first_unavailable_None)
  then obtain t p where "first_unavailable d slots = Some (t, p)" by auto
  with book_after_validation[where sched="foldl perform sched1 requests", OF assms(3-7) d assms(8)]
  show "\<exists>t p. book_medical_appointment (foldl perform sched1 requests) fresh_uuid
                  appointment_date start_time end_time patient_name appointment_type =
                (Inr (Slot_Taken t p), foldl perform sched1 requests)"
    by simp
next
  show "\<forall>sched0 request date_key slot v.
               slot_state sched0 date_key slot = Some v \<and> v \<noteq> ''available'' \<longrightarrow>
               slot_state (perform sched0 request) date_key slot = Some v"
    by (simp add: perform_keeps_taken)
qed


theorem no_double_booking_witness:
  "(\<exists>t p. book_medical_appointment
            (foldl perform (scenario_free(''2024-07-01'' \<mapsto> jane_day))
               [List_Request ''2024-07-01'',
                Book_Request scenario_uuid ''2024-07-01'' ''11:00'' ''12:00'' ''John Roe'' None])
            scenario_uuid ''2024-07-01'' ''08:00'' ''10:00'' ''John Roe'' None =
          (Inr (Slot_Taken t p),
           foldl perform (scenario_free(''2024-07-01'' \<mapsto> jane_day))
               [List_Request ''2024-07-01'',
                Book_Request scenario_uuid ''2024-07-01'' ''11:00'' ''12:00'' ''John Roe'' None]))
   \<and> slot_state
         (perform scenario_jane
            (Book_Request scenario_uuid ''2024-07-01'' ''08:00'' ''10:00'' ''John Roe'' None))
         ''2024-07-01'' ''09:00'' = Some ''Jane Doe (consultation)''"
proof -
  have "''09:00'' \<in> set (details_booked_slots
          \<lparr>details_appointment_id = ''1b4e28ba'', details_patient_name = ''Jane Doe'',
           details_appointment_type = Some ''consultation'', details_date = ''2024-07-01'',
           details_start_time = ''09:00'', details_end_time = ''11:00'',
           details_duration_hours = 2, details_booked_slots = [''09:00'', ''10:00'']\<rparr>)"
    "''John Roe'' \<noteq> []" "strip ''John Roe'' \<noteq> []" "(1064258400::nat) < 1064258520"
    "''09:00'' \<in> set [''08:00'', ''09:00'']"
    by (simp_all add: strip_john)
  note both = no_double_booking[OF book_jane this(1,2,3) parse_0800 parse_1000 this(4)
      slots_0800_1000 this(5)]
  have held: "slot_state scenario_jane ''2024-07-01'' ''09:00'' = Some ''Jane Doe (consultation)'' \<and>
      ''Jane Doe (consultation)'' \<noteq> ''available''"
    by (simp add: slot_state_def scenario_jane_day jane_day_def)
  from both[THEN conjunct2, THEN spec, THEN spec, THEN spec, THEN spec, THEN spec, THEN mp, OF held]
  have kept: "slot_state
         (perform scenario_jane
            (Book_Request scenario_uuid ''2024-07-01'' ''08:00'' ''10:00'' ''John Roe'' None))
         ''2024-07-01'' ''09:00'' = Some ''Jane Doe (consultation)''" .
  show ?thesis
    by (rule conjI) (rule both[THEN conjunct1], rule kept)
qed

section \<open>A formatted date parses back to the same day\<close>

subsection \<open>The fields of an ordinal are a date with that ordinal\<close>


lemma year_div:
  assumes "e \<le> (3::nat)" "c \<le> 24" "b \<le> 3"
  shows "(400 * a + 100 * b + 4 * c + e) div 4 = 100 * a + 25 * b + c"
    and "(400 * a + 100 * b + 4 * c + e) div 100 = 4 * a + b"
    and "(400 * a + 100 * b + 4 * c + e) div 400 = a"
  using assms by (auto intro!: div_nat_eqI)

lemma days_before_year_split:
  assumes "e \<le> (3::nat)" "c \<le> 24" "b \<le> 3"
  shows "days_before_year (400 * a + 100 * b + 4 * c + e + 1) =
           146097 * a + 36524 * b + 1461 * c + 365 * e"
  using assms by (simp add: days_before_year_def Let_def year_div)

lemma mod_full: "0 < x \<Longrightarrow> x \<le> n \<Longrightarrow> x mod n = 0 \<longleftrightarrow> x = (n::nat)"
  by (cases "x = n") auto

lemma is_leap_split:
  assumes "e \<le> (3::nat)" "c \<le> 24" "b \<le> 3"
  shows "is_leap (400 * a + 100 * b + 4 * c + e + 1) \<longleftrightarrow> e = 3 \<and> (c \<noteq> 24 \<or> b = 3)"
proof -
  let ?y = "400 * a + 100 * b + 4 * c + e + 1"
  have "?y = 4 * (100 * a + 25 * b + c) + (e + 1)" by simp
  then have m4: "?y mod 4 = (e + 1) mod 4"
    by (simp only: mod_mult_self4)
  have "?y = 100 * (4 * a + b) + (4 * c + e + 1)" by simp
  then have m100: "?y mod 100 = (4 * c + e + 1) mod 100"
    by (simp only: mod_mult_self4)
  have "?y = 400 * a + (100 * b + 4 * c + e + 1)" by simp
  then have m400: "?y mod 400 = (100 * b + 4 * c + e + 1) mod 400"
    by (simp only: mod_mult_self4)
  have "(e + 1) mod 4 = 0 \<longleftrightarrow> e = 3"
    using assms(1) by (subst mod_full) auto
  moreover have "(4 * c + e + 1) mod 100 = 0 \<longleftrightarrow> c = 24 \<and> e = 3"
    using assms(1,2) by (subst mod_full) (simp, simp, arith)
  moreover have "(100 * b + 4 * c + e + 1) mod 400 = 0 \<longleftrightarrow> b = 3 \<and> c = 24 \<and> e = 3"
    using assms by (subst mod_full) (simp, simp, arith)
  ultimately show ?thesis
    unfolding is_leap_def m4 m100 m400 by auto
qed

lemma month_part:
  assumes "r < 365"
    and "(let month = (r + 50) div 32;
              preceding = DAYS_BEFORE_MONTH ! month + (if month > 2 \<and> leap then 1 else 0)
          in if preceding > r
             then let month = month - 1;
                      preceding = preceding -
                        (DAYS_IN_MONTH ! month + (if month = 2 \<and> leap then 1 else 0))
                  in (y, month, r - preceding + 1)
             else (y, month, r - preceding + 1)) = (y', m, d)"
  shows "y' = y \<and> 1 \<le> m \<and> m \<le> 12 \<and> 1 \<le> d \<and>
         d \<le> (if m = 2 \<and> leap then 29 else DAYS_IN_MONTH ! m) \<and>
         DAYS_BEFORE_MONTH ! m + (if m > 2 \<and> leap then 1 else 0) + d = r + 1"
proof -
  define k where "k = (r + 50) div 32"
  have "r + 50 = 32 * k + (r + 50) mod 32" by (simp add: k_def)
  moreover have "(r + 50) mod 32 < 32" by simp
  ultimately have k: "32 * k \<le> r + 50" "r + 50 < 32 * k + 32" by linarith+
  with assms(1) have "1 \<le> k" "k \<le> 12" by linarith+
  then consider "k = 1" | "k = 2" | "k = 3" | "k = 4" | "k = 5" | "k = 6" | "k = 7" | "k = 8"
    | "k = 9" | "k = 10" | "k = 11" | "k = 12"
    by atomize_elim arith
  then show ?thesis
    using assms k unfolding k_def[symmetric]
    by cases (auto simp add: Let_def DAYS_BEFORE_MONTH_def DAYS_IN_MONTH_def split: if_splits)
qed

lemma year_bound:
  assumes "146097 * a + 36524 * b + 1461 * c + 365 * e + r \<le> (3652058::nat)"
    and "b \<le> 4" "c \<le> 24" "e \<le> 4"
  shows "400 * a + 100 * b + 4 * c + e \<le> 9998"
proof (cases "a \<le> 23")
  case True
  with assms show ?thesis by linarith
next
  case False
  with assms(1) have a: "a = 24" by linarith
  show ?thesis
  proof (cases "b \<le> 2")
    case True
    with a assms show ?thesis by linarith
  next
    case False
    with a assms(1) have b: "b = 3" by linarith
    show ?thesis
    proof (cases "c \<le> 23")
      case True
      with a b assms show ?thesis by linarith
    next
      case False
      with assms(3) have c: "c = 24" by linarith
      with a b assms(1) have "e \<le> 2" by linarith
      with a b c show ?thesis by linarith
    qed
  qed
qed

lemma ord2ymd_inverse:
  assumes "1 \<le> n" "n \<le> MAXORDINAL" "ord2ymd n = (y, m, d)"
  shows "check_date_fields y m d \<and> ymd2ord y m d = n"
proof -
  define a where "a = (n - 1) div 146097"
  define r1 where "r1 = (n - 1) mod 146097"
  define b where "b = (n - 1) mod 146097 div 36524"
  define r2 where "r2 = (n - 1) mod 146097 mod 36524"
  define c where "c = (n - 1) mod 146097 mod 36524 div 1461"
  define r3 where "r3 = (n - 1) mod 146097 mod 36524 mod 1461"
  define e where "e = (n - 1) mod 146097 mod 36524 mod 1461 div 365"
  define r4 where "r4 = (n - 1) mod 146097 mod 36524 mod 1461 mod 365"
  have n: "n = 146097 * a + r1 + 1" using assms(1) by (simp add: a_def r1_def)
  have r1: "r1 = 36524 * b + r2" "r1 < 146097" by (simp_all add: r1_def b_def r2_def)
  have r2: "r2 = 1461 * c + r3" "r2 < 36524" by (simp_all add: r2_def c_def r3_def)
  have r3: "r3 = 365 * e + r4" "r3 < 1461" by (simp_all add: r3_def e_def r4_def)
  have r4: "r4 < 365" by (simp add: r4_def)
  from r1 have b4: "b \<le> 4" by linarith
  from r2 have c24: "c \<le> 24" by linarith
  from r3 have e4: "e \<le> 4" by linarith
  from assms(2) n r1 r2 r3
  have "146097 * a + 36524 * b + 1461 * c + 365 * e + r4 \<le> 3652058"
    by (simp add: MAXORDINAL_def)
  from year_bound[OF this b4 c24 e4] have yb: "400 * a + 100 * b + 4 * c + e \<le> 9998" .
  have unf: "ord2ymd n =
      (if e = 4 \<or> b = 4 then (a * 400 + 1 + b * 100 + c * 4 + e - 1, 12, 31)
       else
         let month = (r4 + 50) div 32;
             preceding = DAYS_BEFORE_MONTH ! month +
               (if month > 2 \<and> (e = 3 \<and> (c \<noteq> 24 \<or> b = 3)) then 1 else 0)
         in if preceding > r4
            then let month = month - 1;
                     preceding = preceding -
                       (DAYS_IN_MONTH ! month +
                          (if month = 2 \<and> (e = 3 \<and> (c \<noteq> 24 \<or> b = 3)) then 1 else 0))
                 in (a * 400 + 1 + b * 100 + c * 4 + e, month, r4 - preceding + 1)
            else (a * 400 + 1 + b * 100 + c * 4 + e, month, r4 - preceding + 1))"
    unfolding ord2ymd_def Let_def r4_def e_def c_def b_def a_def ..
  show ?thesis
  proof (cases "b = 4")
    case True
    with r1 have "r2 = 0" by linarith
    with r2 r3 have z: "c = 0" "e = 0" "r4 = 0" by auto
    define yy where "yy = 400 * a + 100 * 3 + 4 * 24 + 3 + 1"
    from assms(3) True z have ymd: "y = yy" "m = 12" "d = 31"
      by (simp_all add: unf yy_def)
    have leap: "is_leap yy"
      unfolding yy_def by (subst is_leap_split) simp_all
    have dby: "days_before_year yy = 146097 * a + 36524 * 3 + 1461 * 24 + 365 * 3"
      unfolding yy_def by (subst days_before_year_split) simp_all
    have "n = 146097 * a + 146097" using n r1 \<open>r2 = 0\<close> True by simp
    moreover from yb True have "yy \<le> 9999" "1 \<le> yy" by (simp_all add: yy_def)
    ultimately show ?thesis
      unfolding ymd check_date_fields_def ymd2ord_def days_in_month_def days_before_month_def
        dby
      by (simp add: leap DAYS_IN_MONTH_def DAYS_BEFORE_MONTH_def)
  next
    case False
    with b4 have b3: "b \<le> 3" by simp
    show ?thesis
    proof (cases "e = 4")
      case True
      with r3 have "r4 = 0" by linarith
      from True r2 r3 have c23: "c \<le> 23" by linarith
      define yy where "yy = 400 * a + 100 * b + 4 * c + 3 + 1"
      from assms(3) True have ymd: "y = yy" "m = 12" "d = 31"
        by (simp_all add: unf yy_def)
      have leap: "is_leap yy"
        unfolding yy_def using c23 b3 by (subst is_leap_split) simp_all
      have dby: "days_before_year yy = 146097 * a + 36524 * b + 1461 * c + 365 * 3"
        unfolding yy_def using c23 b3 by (subst days_before_year_split) simp_all
      have "n = 146097 * a + 36524 * b + 1461 * c + 1461"
        using n r1 r2 r3 True \<open>r4 = 0\<close> by simp
      moreover from yb True have "yy \<le> 9999" "1 \<le> yy" by (simp_all add: yy_def)
      ultimately show ?thesis
        unfolding ymd check_date_fields_def ymd2ord_def days_in_month_def days_before_month_def
          dby
        by (simp add: leap DAYS_IN_MONTH_def DAYS_BEFORE_MONTH_def)
    next
      case False
      with e4 have e3: "e \<le> 3" by simp
      define leap where "leap \<longleftrightarrow> e = 3 \<and> (c \<noteq> 24 \<or> b = 3)"
      define yy where "yy = 400 * a + 100 * b + 4 * c + e + 1"
      have isl: "is_leap yy \<longleftrightarrow> leap"
        unfolding leap_def yy_def by (rule is_leap_split[OF e3 c24 b3])
      have dby: "days_before_year yy = 146097 * a + 36524 * b + 1461 * c + 365 * e"
        unfolding yy_def by (rule days_before_year_split[OF e3 c24 b3])
      from assms(3) False \<open>b \<noteq> 4\<close>
      have "(let month = (r4 + 50) div 32;
              preceding = DAYS_BEFORE_MONTH ! month + (if month > 2 \<and> leap then 1 else 0)
          in if preceding > r4
             then let month = month - 1;
                      preceding = preceding -
                        (DAYS_IN_MONTH ! month + (if month = 2 \<and> leap then 1 else 0))
                  in (a * 400 + 1 + b * 100 + c * 4 + e, month, r4 - preceding + 1)
             else (a * 400 + 1 + b * 100 + c * 4 + e, month, r4 - preceding + 1)) = (y, m, d)"
        unfolding unf leap_def by simp
      from month_part[OF r4 this]
      have y: "y = a * 400 + 1 + b * 100 + c * 4 + e" and md: "1 \<le> m" "m \<le> 12" "1 \<le> d"
        "d \<le> (if m = 2 \<and> leap then 29 else DAYS_IN_MONTH ! m)"
        "DAYS_BEFORE_MONTH ! m + (if m > 2 \<and> leap then 1 else 0) + d = r4 + 1"
        by simp_all
      have y': "y = yy" using y by (simp add: yy_def)
      have "n = 146097 * a + 36524 * b + 1461 * c + 365 * e + r4 + 1"
        using n r1 r2 r3 by simp
      moreover from yb have "yy \<le> 9999" "1 \<le> yy" by (simp_all add: yy_def)
      ultimately show ?thesis
        using md
        unfolding y' check_date_fields_def ymd2ord_def days_in_month_def days_before_month_def
          dby isl
        by simp
    qed
  qed
qed

subsection \<open>The text of the fields matches the regular expression\<close>


lemma of_char_digit_char: "(of_char (digit_char k) :: nat) = 48 + k mod 10"
proof -
  have "k mod 10 < 10" by simp
  then consider "k mod 10 = 0" | "k mod 10 = 1" | "k mod 10 = 2" | "k mod 10 = 3" | "k mod 10 = 4" | "k mod 10 = 5" | "k mod 10 = 6" | "k mod 10 = 7" | "k mod 10 = 8" | "k mod 10 = 9"
    by atomize_elim arith
  then show ?thesis
    by cases (simp_all add: digit_char_def)
qed

lemma digit_char_props:
  "isdigit (digit_char k)" "\<not> isspace (digit_char k)" "digit_val (digit_char k) = k mod 10"
proof -
  define x where "x = k mod 10"
  have "x < 10" by (simp add: x_def)
  then show "isdigit (digit_char k)" "\<not> isspace (digit_char k)"
    "digit_val (digit_char k) = k mod 10"
    unfolding isdigit_def isspace_def digit_val_def of_char_digit_char Let_def x_def[symmetric]
    by simp_all
qed

lemma replicate_small: "replicate 3 c = [c, c, c]" "replicate 2 c = [c, c]"
  by (simp_all add: numeral_3_eq_3 numeral_2_eq_2)

lemma str_nat_small: "n < 10 \<Longrightarrow> str_nat n = [digit_char n]"
  by (simp add: str_nat.simps)

lemma str_nat_large: "10 \<le> n \<Longrightarrow> str_nat n = str_nat (n div 10) @ [digit_char n]"
  by (subst str_nat.simps) (simp add: digit_char_def)

lemma digit_char_0: "digit_char 0 = CHR ''0''"
  by (simp add: digit_char_def)

lemma fmt_04d_digits:
  assumes "y < 10000"
  shows "fmt_04d y =
    [digit_char (y div 1000), digit_char (y div 100), digit_char (y div 10), digit_char y]"
proof -
  consider "y < 10" | "10 \<le> y" "y < 100" | "100 \<le> y" "y < 1000" | "1000 \<le> y"
    by linarith
  then show ?thesis
  proof cases
    case 1
    then show ?thesis
      by (simp add: replicate_small fmt_04d_def zfill_def str_nat_small digit_char_0)
  next
    case 2
    then have "y div 10 < 10" by simp
    with 2 show ?thesis
      by (simp add: replicate_small fmt_04d_def zfill_def str_nat_large str_nat_small digit_char_0)
  next
    case 3
    then have "y div 10 div 10 < 10" "10 \<le> y div 10" "10 \<le> y" "y div 1000 = 0" by simp_all
    then show ?thesis
      by (simp add: replicate_small fmt_04d_def zfill_def str_nat_large str_nat_small digit_char_0
            div_mult2_eq[symmetric])
  next
    case 4
    with assms have "y div 10 div 10 div 10 < 10" "10 \<le> y div 10 div 10" "10 \<le> y div 10" "10 \<le> y"
      by simp_all
    then show ?thesis
      by (simp add: replicate_small fmt_04d_def zfill_def str_nat_large str_nat_small div_mult2_eq[symmetric])
  qed
qed

lemma four_digits:
  assumes "y < (10000::nat)"
  shows "1000 * (y div 1000 mod 10) + 100 * (y div 100 mod 10) + 10 * (y div 10 mod 10) + y mod 10 = y"
proof -
  have "y div 1000 mod 10 = y div 1000" using assms by simp
  moreover have "y div 100 div 10 = y div 1000"
    using div_mult2_eq[of y 100 10] by simp
  then have "y div 100 = 10 * (y div 1000) + y div 100 mod 10"
    using mult_div_mod_eq[of 10 "y div 100"] by simp
  moreover have "y div 10 div 10 = y div 100"
    using div_mult2_eq[of y 10 10] by simp
  then have "y div 10 = 10 * (y div 100) + y div 10 mod 10"
    using mult_div_mod_eq[of 10 "y div 10"] by simp
  moreover have "y = 10 * (y div 10) + y mod 10" by simp
  ultimately show ?thesis by linarith
qed

lemma re_Y_match:
  assumes "y < 10000" and "re_match its rest = Some (vs, r')"
  shows "re_match (re_Y # its) (fmt_04d y @ rest) = Some (y # vs, r')"
  using assms four_digits[OF assms(1)]
  by (simp add: fmt_04d_digits re_Y_def digit_char_props int_str_def strip_def)

lemmas group_eval =
  re_m_def re_d_def isdigit_def chr_is_def chr_in_def int_str_def strip_def isspace_def
  digit_val_def fmt_02d_def zfill_def digit_char_def str_nat.simps

lemma re_m_match:
  assumes "1 \<le> m" "m \<le> 12" and "re_match its rest = Some (vs, r')"
  shows "re_match (re_m # its) (fmt_02d m @ rest) = Some (m # vs, r')"
proof -
  from assms(1,2) consider "m = 1" | "m = 2" | "m = 3" | "m = 4" | "m = 5" | "m = 6" | "m = 7" | "m = 8" | "m = 9" | "m = 10" | "m = 11" | "m = 12"
    by atomize_elim arith
  then show ?thesis
    using assms(3) by cases (simp_all add: group_eval)
qed


lemma re_d_match:
  assumes "1 \<le> d" "d \<le> 31" and "re_match its rest = Some (vs, r')"
  shows "re_match (re_d # its) (fmt_02d d @ rest) = Some (d # vs, r')"
proof -
  from assms(1,2) consider "d = 1" | "d = 2" | "d = 3" | "d = 4" | "d = 5" | "d = 6" | "d = 7" | "d = 8" | "d = 9" | "d = 10" | "d = 11" | "d = 12" | "d = 13" | "d = 14" | "d = 15" | "d = 16" | "d = 17" | "d = 18" | "d = 19" | "d = 20" | "d = 21" | "d = 22" | "d = 23" | "d = 24" | "d = 25" | "d = 26" | "d = 27" | "d = 28" | "d = 29" | "d = 30" | "d = 31"
    by atomize_elim arith
  then show ?thesis
    using assms(3) by cases (simp_all add: group_eval)
qed

lemma days_in_month_le: "1 \<le> m \<Longrightarrow> m \<le> 12 \<Longrightarrow> days_in_month y m \<le> 31"
proof -
  assume "1 \<le> m" "m \<le> 12"
  then consider "m = 1" | "m = 2" | "m = 3" | "m = 4" | "m = 5" | "m = 6" | "m = 7" | "m = 8" | "m = 9" | "m = 10" | "m = 11" | "m = 12"
    by atomize_elim arith
  then show ?thesis
    by cases (simp_all add: days_in_month_def DAYS_IN_MONTH_def)
qed

lemma strptime_strftime_fields:
  assumes "check_date_fields y m d"
  shows "strptime_date (fmt_04d y @ ''-'' @ fmt_02d m @ ''-'' @ fmt_02d d) = Some (ymd2ord y m d)"
proof -
  from assms have y: "y < 10000" and m: "1 \<le> m" "m \<le> 12" and d: "1 \<le> d" "d \<le> 31"
    using days_in_month_le[of m y] by (auto simp: check_date_fields_def)
  have "re_match [re_d] (fmt_02d d @ []) = Some ([d], [])"
    by (rule re_d_match[OF d]) simp
  then have "re_match [Lit CHR ''-'', re_d] (''-'' @ fmt_02d d) = Some ([d], [])"
    by simp
  from re_m_match[OF m this]
  have "re_match [Lit CHR ''-'', re_m, Lit CHR ''-'', re_d] (''-'' @ fmt_02d m @ ''-'' @ fmt_02d d) =
          Some ([m, d], [])"
    by simp
  from re_Y_match[OF y this]
  show ?thesis using assms by (simp add: strptime_date_def)
qed

lemma strptime_strftime:
  assumes "1 \<le> n" "n \<le> MAXORDINAL"
  shows "strptime_date (strftime_date n) = Some n"
proof -
  obtain y m d where o: "ord2ymd n = (y, m, d)" by (cases "ord2ymd n") auto
  from ord2ymd_inverse[OF assms o] strptime_strftime_fields[of y m d]
  show ?thesis by (simp add: strftime_date_def o)
qed



section \<open>The schedule after the module is loaded\<close>

lemma initialize_loop_no_overflow:
  "initialize_loop today offs sched = Inr sched' \<Longrightarrow> \<forall>i\<in>set offs. today + i \<le> MAXORDINAL"
  by (induction offs arbitrary: sched) (auto simp: Let_def split: if_splits)

lemma module_schedule_cases:
  assumes "module_schedule today = Inr sched"
  shows "today + 6 \<le> MAXORDINAL"
    and "sched = (\<lambda>k. if k \<in> (\<lambda>i. strftime_date (today + i)) ` {0 ..< 7} then Some free_day else None)"
proof -
  from assms have "\<forall>i\<in>set [0 ..< 7]. today + i \<le> MAXORDINAL"
    unfolding module_schedule_def initialize_medical_schedule_def
    by (rule initialize_loop_no_overflow)
  then show "today + 6 \<le> MAXORDINAL" by simp
  from module_schedule_Inr[OF this] assms
  show "sched = (\<lambda>k. if k \<in> (\<lambda>i. strftime_date (today + i)) ` {0 ..< 7} then Some free_day else None)"
    by simp
qed

lemma free_day_report:
  "available_of free_day = available_time_slots" "booked_of free_day = []"
  "length free_day = 9" "free_day \<noteq> []"
  by (simp_all add: available_of_def booked_of_def free_day_def available_time_slots_eval)

text \<open>
  Claim C4.  On the schedule of the freshly loaded module, for each of the seven days
  from today on, \<open>list_appointment_availabilities\<close> of the day's date text succeeds
  with nine slots in all, which is \<open>end_hour - start_hour\<close>, nine of them available
  and none booked, and the available slots are the hours 08:00 to 16:00 in order.
\<close>

theorem initialization_complete:
  assumes "module_schedule today = Inr sched" and "1 \<le> today" and "i < 7"
  shows "list_appointment_availabilities today sched (strftime_date (today + i)) =
           Inr \<lparr>available_slots =
                  [''08:00'', ''09:00'', ''10:00'', ''11:00'', ''12:00'', ''13:00'', ''14:00'',
                   ''15:00'', ''16:00''],
                booked_appointments = [], total_slots = 9,
                available_count = Some 9, booked_count = Some 0\<rparr>
         \<and> end_hour OFFICE_HOURS - start_hour OFFICE_HOURS = 9"
proof -
  note ms = module_schedule_cases[OF assms(1)]
  from ms(1) assms(2,3) have "1 \<le> today + i" "today + i \<le> MAXORDINAL" by simp_all
  then have p: "strptime_date (strftime_date (today + i)) = Some (today + i)"
    by (rule strptime_strftime)
  from assms(3) have "strftime_date (today + i) \<in> (\<lambda>i. strftime_date (today + i)) ` {0 ..< 7}"
    by simp
  then have d: "sched (strftime_date (today + i)) = Some free_day"
    by (simp only: ms(2) if_True)
  show ?thesis
    by (simp add: list_appointment_availabilities_def p d free_day_report
          available_time_slots_eval OFFICE_HOURS_def)
qed

lemma module_schedule_scenario: "module_schedule scenario_today = Inr scenario_free"
  unfolding scenario_free_def
  by (subst (1 2) module_schedule_Inr) (simp_all add: scenario_today_def MAXORDINAL_def)

theorem initialization_complete_witness:
  "list_appointment_availabilities scenario_today scenario_free ''2024-07-04'' =
           Inr \<lparr>available_slots =
                  [''08:00'', ''09:00'', ''10:00'', ''11:00'', ''12:00'', ''13:00'', ''14:00'',
                   ''15:00'', ''16:00''],
                booked_appointments = [], total_slots = 9,
                available_count = Some 9, booked_count = Some 0\<rparr>
         \<and> end_hour OFFICE_HOURS - start_hour OFFICE_HOURS = 9"
proof -
  have s: "strftime_date (scenario_today + 3) = ''2024-07-04''"
    by (simp add: scenario_today_def strftime_eval)
  have "(1::nat) \<le> scenario_today" "(3::nat) < 7" by (simp_all add: scenario_today_def)
  from initialization_complete[OF module_schedule_scenario this]
  show ?thesis unfolding s .
qed


lemma book_dom:
  "dom (snd (book_medical_appointment sched fresh_uuid appointment_date start_time end_time
          patient_name appointment_type)) = dom sched"
proof (cases "\<exists>a. fst (book_medical_appointment sched fresh_uuid appointment_date start_time
           end_time patient_name appointment_type) = Inr (Booked a)")
  case False
  with book_unchanged_or_Booked[of sched fresh_uuid appointment_date start_time end_time
      patient_name appointment_type]
  show ?thesis by simp
next
  case True
  then obtain a where "book_medical_appointment sched fresh_uuid appointment_date start_time
      end_time patient_name appointment_type =
      (Inr (Booked a), snd (book_medical_appointment sched fresh_uuid appointment_date start_time
           end_time patient_name appointment_type))"
    by (metis prod.collapse)
  then obtain s e d slots where
    "sched appointment_date = Some d"
    "snd (book_medical_appointment sched fresh_uuid appointment_date start_time
           end_time patient_name appointment_type) =
       sched(appointment_date \<mapsto>
         book_slots slots (patient_name @ '' ('' @ fmt_optional appointment_type @ '')'') d)"
    by (rule book_Booked_cases)
  then show ?thesis by (auto simp only: dom_fun_upd option.simps if_False insert_absorb domI)
qed

lemma run_dom: "dom (foldl perform sched requests) = dom sched"
proof (induction requests arbitrary: sched)
  case Nil
  show ?case by simp
next
  case (Cons r rs)
  have "dom (perform sched r) = dom sched"
    by (cases r) (simp_all add: book_dom)
  with Cons show ?case by simp
qed

text \<open>
  Claim C10.  \<open>book_medical_appointment\<close> reads no clock: the model has no argument
  for the current date or time, as the source calls neither \<open>date.today()\<close> nor
  \<open>datetime.now()\<close> there.  A request that passes the four checks and finds all its
  slots available is booked, whatever the time of day is.  The keys of the schedule are
  the texts of the seven days from the day of loading on, each of which parses back to
  its day, and no call adds a key; so a text that parses to a day before that day is
  never a key of the schedule.
\<close>

theorem booking_ignores_the_clock:
  assumes "patient_name \<noteq> []" "strip patient_name \<noteq> []"
    and "strptime_datetime (appointment_date @ '' '' @ start_time) = Some s"
    and "strptime_datetime (appointment_date @ '' '' @ end_time) = Some e"
    and "s < e" and "sched appointment_date = Some d"
    and "required_time_slots_loop s e [] = Inr slots"
    and "\<forall>t\<in>set slots. map_of d t = Some ''available''"
    and "module_schedule today = Inr sched0" and "1 \<le> today"
  shows "(\<exists>a sched'. book_medical_appointment sched fresh_uuid appointment_date start_time
            end_time patient_name appointment_type = (Inr (Booked a), sched'))
         \<and> dom (foldl perform sched0 requests) = (\<lambda>i. strftime_date (today + i)) ` {0 ..< 7}
         \<and> (\<forall>i<7. strptime_date (strftime_date (today + i)) = Some (today + i))
         \<and> (\<forall>k p. strptime_date k = Some p \<and> p < today \<longrightarrow>
               foldl perform sched0 requests k = None)"
proof (intro conjI)
  from assms(8) have "first_unavailable d slots = None"
    by (simp add: first_unavailable_None)
  with book_after_validation[where sched=sched, OF assms(1-7)]
  show "\<exists>a sched'. book_medical_appointment sched fresh_uuid appointment_date start_time
            end_time patient_name appointment_type = (Inr (Booked a), sched')"
    by simp
next
  note ms = module_schedule_cases[OF assms(9)]
  have "dom sched0 = (\<lambda>i. strftime_date (today + i)) ` {0 ..< 7}"
    unfolding ms(2) by (auto simp: dom_def)
  then show keys: "dom (foldl perform sched0 requests) = (\<lambda>i. strftime_date (today + i)) ` {0 ..< 7}"
    by (simp add: run_dom)
  show parses: "\<forall>i<7. strptime_date (strftime_date (today + i)) = Some (today + i)"
  proof (intro allI impI)
    fix i :: nat assume "i < 7"
    with ms(1) assms(10) have "1 \<le> today + i" "today + i \<le> MAXORDINAL" by simp_all
    then show "strptime_date (strftime_date (today + i)) = Some (today + i)"
      by (rule strptime_strftime)
  qed
  show "\<forall>k p. strptime_date k = Some p \<and> p < today \<longrightarrow> foldl perform sched0 requests k = None"
  proof (intro allI impI)
    fix k p assume kp: "strptime_date k = Some p \<and> p < today"
    show "foldl perform sched0 requests k = None"
    proof (rule ccontr)
      assume "foldl perform sched0 requests k \<noteq> None"
      then have "k \<in> dom (foldl perform sched0 requests)" by (simp add: dom_def)
      with keys obtain i where "i < 7" "k = strftime_date (today + i)" by auto
      with parses kp show False by auto
    qed
  qed
qed


lemma slots_0800_0900: "required_time_slots_loop 1064258400 1064258460 [] = Inr [''08:00'']"
  by (simp add: loop_eval)

theorem booking_ignores_the_clock_witness:
  "(\<exists>a sched'. book_medical_appointment scenario_jane scenario_uuid ''2024-07-01'' ''08:00''
       ''09:00'' ''John Roe'' None = (Inr (Booked a), sched'))
   \<and> dom (foldl perform scenario_free
            [Book_Request scenario_uuid ''2024-07-01'' ''09:00'' ''11:00'' ''Jane Doe''
               (Some ''consultation'')]) =
       (\<lambda>i. strftime_date (scenario_today + i)) ` {0 ..< 7}
   \<and> strptime_date (strftime_date (scenario_today + 2)) = Some (scenario_today + 2)
   \<and> foldl perform scenario_free
         [Book_Request scenario_uuid ''2024-07-01'' ''09:00'' ''11:00'' ''Jane Doe''
            (Some ''consultation'')] ''2024-06-30'' = None"
proof -
  have "''John Roe'' \<noteq> []" "strip ''John Roe'' \<noteq> []" "(1064258400::nat) < 1064258460"
    "\<forall>t\<in>set [''08:00'']. map_of jane_day t = Some ''available''" "1 \<le> scenario_today"
    by (simp_all add: strip_john jane_day_def scenario_today_def)
  note all = booking_ignores_the_clock[where sched=scenario_jane and fresh_uuid=scenario_uuid
      and appointment_type=None
      and requests="[Book_Request scenario_uuid ''2024-07-01'' ''09:00'' ''11:00'' ''Jane Doe''
               (Some ''consultation'')]",
      OF this(1,2) parse_0800 parse_0900 this(3) scenario_jane_day slots_0800_0900 this(4)
        module_schedule_scenario this(5)]
  have past: "strptime_date ''2024-06-30'' = Some 739067 \<and> 739067 < scenario_today"
    by (simp add: date_eval scenario_today_def)
  have two: "(2::nat) < 7" by simp
  show ?thesis
    by (intro conjI)
       (rule all[THEN conjunct1], rule all[THEN conjunct2, THEN conjunct1],
        rule all[THEN conjunct2, THEN conjunct2, THEN conjunct1, THEN spec, THEN mp, OF two],
        rule all[THEN conjunct2, THEN conjunct2, THEN conjunct2, THEN spec, THEN spec, THEN mp,
          OF past])
qed

section \<open>The range queries of the specialist agents\<close>

lemma neurologist_loop_sorted:
  "neurologist_loop random_sample today offs sched0 = Inr sched \<Longrightarrow>
   (\<forall>k l. sched0 k = Some l \<longrightarrow> sorted l) \<Longrightarrow> sched k = Some l \<Longrightarrow> sorted l"
proof (induction offs arbitrary: sched0)
  case Nil
  then show ?case by simp
next
  case (Cons a offs)
  from Cons.prems(1) have no: "\<not> today + a > MAXORDINAL"
    by (auto split: if_splits)
  with Cons.prems(1) have "neurologist_loop random_sample today offs
      (sched0(strftime_date (today + a) \<mapsto>
         sort (random_sample a office_time_slots (slots_per_day NEUROLOGY_OFFICE_CONFIG)))) = Inr sched"
    by (simp add: Let_def)
  moreover have "\<forall>k l. (sched0(strftime_date (today + a) \<mapsto>
         sort (random_sample a office_time_slots (slots_per_day NEUROLOGY_OFFICE_CONFIG)))) k = Some l
        \<longrightarrow> sorted l"
    using Cons.prems(2) by auto
  ultimately show ?case using Cons.prems(3) by (rule Cons.IH)
qed

lemma generate_loop_sorted:
  "generate_loop random_sample today offs sched0 = Inr sched \<Longrightarrow>
   (\<forall>k l. sched0 k = Some l \<longrightarrow> sorted l) \<Longrightarrow> sched k = Some l \<Longrightarrow> sorted l"
proof (induction offs arbitrary: sched0)
  case Nil
  then show ?case by simp
next
  case (Cons a offs)
  from Cons.prems(1) have no: "\<not> today + a > MAXORDINAL"
    by (auto split: if_splits)
  with Cons.prems(1) have "generate_loop random_sample today offs
      (sched0(strftime_date (today + a) \<mapsto> sort (random_sample a possible_times 6))) = Inr sched"
    by (simp add: Let_def)
  moreover have "\<forall>k l. (sched0(strftime_date (today + a) \<mapsto>
         sort (random_sample a possible_times 6))) k = Some l \<longrightarrow> sorted l"
    using Cons.prems(2) by auto
  ultimately show ?case using Cons.prems(3) by (rule Cons.IH)
qed

lemma day_line_cases:
  "day_line sched ds =
     (case sched ds of Some (t # ts) \<Rightarrow> Available_At ds (t # ts) | _ \<Rightarrow> No_Slots ds)"
  by (simp add: day_line_def Let_def split: option.splits list.splits)

lemma range_lines:
  assumes "s \<le> e"
  shows "map (\<lambda>day_offset. day_line sched (strftime_date (s + day_offset))) [0 ..< (e - s) + 1] =
         map (\<lambda>day. day_line sched (strftime_date day)) [s ..< Suc e]"
proof -
  from assms have "Suc e = (e - s) + 1 + s" by simp
  then have "[s ..< Suc e] = map (\<lambda>i. i + s) [0 ..< (e - s) + 1]"
    by (simp only: map_add_upt)
  then show ?thesis by (simp add: comp_def add.commute del: upt_Suc)
qed



lemma neurologist_loop_returns:
  "\<forall>i\<in>set offs. today + i \<le> MAXORDINAL \<Longrightarrow>
   \<exists>sched. neurologist_loop random_sample today offs sched0 = Inr sched"
  by (induction offs arbitrary: sched0) (simp_all add: Let_def)

lemma generate_loop_returns:
  "\<forall>i\<in>set offs. today + i \<le> MAXORDINAL \<Longrightarrow>
   \<exists>sched. generate_loop random_sample today offs sched0 = Inr sched"
  by (induction offs arbitrary: sched0) (simp_all add: Let_def)

lemma line_date_day_line: "line_date (day_line sched ds) = ds"
  by (simp add: day_line_def Let_def)

text \<open>
  Claim C7.  The neurologist's range query answers with the format error when either
  text is no date, with the range error when the start is after the end, and with the
  past-dates error exactly when both parse, the start is not after the end and the end
  is before today; so a range that starts in the past and ends today or later is
  answered.  The answer has one line for each day from the start to the end, in that
  order, each with the day's text and its free times, or without any when the day has
  none; the lists of a generated schedule are sorted.  The pulmonologist's tool does
  the same on the two ends of its text, and has no past-dates error at all.  Neither
  function assigns to its schedule.
\<close>

theorem range_query:
  "(strptime_date requested_start_date = None \<or> strptime_date requested_end_date = None \<longrightarrow>
      check_neurologist_appointment_availability today sched requested_start_date
        requested_end_date = Invalid_Date_Format)
   \<and> (strptime_date requested_start_date = Some s \<and> strptime_date requested_end_date = Some e \<and>
       e < s \<longrightarrow>
      check_neurologist_appointment_availability today sched requested_start_date
        requested_end_date = Invalid_Date_Range)
   \<and> (check_neurologist_appointment_availability today sched requested_start_date
        requested_end_date = All_Past_Dates \<longleftrightarrow>
      (\<exists>s' e'. strptime_date requested_start_date = Some s' \<and>
         strptime_date requested_end_date = Some e' \<and> s' \<le> e' \<and> e' < today))
   \<and> (strptime_date requested_start_date = Some s \<and> strptime_date requested_end_date = Some e \<and>
       s \<le> e \<and> today \<le> e \<longrightarrow>
      check_neurologist_appointment_availability today sched requested_start_date
        requested_end_date =
      Lines (map (\<lambda>day. day_line sched (strftime_date day)) [s ..< Suc e]))
   \<and> (\<forall>any_sched ds. line_date (day_line any_sched ds) = ds \<and>
         day_line any_sched ds =
           (case any_sched ds of Some (t # ts) \<Rightarrow> Available_At ds (t # ts) | _ \<Rightarrow> No_Slots ds))
   \<and> (initialize_neurologist_appointment_schedule random_sample loaded = Inr sched \<longrightarrow>
        (\<forall>ds l. sched ds = Some l \<longrightarrow> sorted l))
   \<and> (dates = map strip (split_to [] date_range) \<longrightarrow>
        (strptime_date (hd dates) = None \<or> strptime_date (last dates) = None \<longrightarrow>
           pulmonologist_run lung_sched date_range = Invalid_Date_Format)
        \<and> (strptime_date (hd dates) = Some s \<and> strptime_date (last dates) = Some e \<and> e < s \<longrightarrow>
           pulmonologist_run lung_sched date_range = Invalid_Date_Range)
        \<and> (strptime_date (hd dates) = Some s \<and> strptime_date (last dates) = Some e \<and> s \<le> e \<longrightarrow>
           pulmonologist_run lung_sched date_range =
           Lines (map (\<lambda>day. day_line lung_sched (strftime_date day)) [s ..< Suc e])))
   \<and> pulmonologist_run lung_sched date_range \<noteq> All_Past_Dates
   \<and> (generate_appointment_schedule random_sample loaded = Inr lung_sched \<longrightarrow>
        (\<forall>ds l. lung_sched ds = Some l \<longrightarrow> sorted l))"
proof (intro conjI)
  show "strptime_date requested_start_date = None \<or> strptime_date requested_end_date = None \<longrightarrow>
      check_neurologist_appointment_availability today sched requested_start_date
        requested_end_date = Invalid_Date_Format"
    by (auto simp: check_neurologist_appointment_availability_def split: option.splits)
  show "strptime_date requested_start_date = Some s \<and> strptime_date requested_end_date = Some e \<and>
       e < s \<longrightarrow>
      check_neurologist_appointment_availability today sched requested_start_date
        requested_end_date = Invalid_Date_Range"
    by (simp add: check_neurologist_appointment_availability_def)
  show "check_neurologist_appointment_availability today sched requested_start_date
        requested_end_date = All_Past_Dates \<longleftrightarrow>
      (\<exists>s' e'. strptime_date requested_start_date = Some s' \<and>
         strptime_date requested_end_date = Some e' \<and> s' \<le> e' \<and> e' < today)"
    by (auto simp: check_neurologist_appointment_availability_def Let_def
             split: option.splits if_splits)
  show "strptime_date requested_start_date = Some s \<and> strptime_date requested_end_date = Some e \<and>
       s \<le> e \<and> today \<le> e \<longrightarrow>
      check_neurologist_appointment_availability today sched requested_start_date
        requested_end_date =
      Lines (map (\<lambda>day. day_line sched (strftime_date day)) [s ..< Suc e])"
  proof
    assume a: "strptime_date requested_start_date = Some s \<and>
      strptime_date requested_end_date = Some e \<and> s \<le> e \<and> today \<le> e"
    then have "map (\<lambda>day_offset. day_line sched (strftime_date (s + day_offset))) [0 ..< (e - s) + 1] =
         map (\<lambda>day. day_line sched (strftime_date day)) [s ..< Suc e]"
      by (simp only: range_lines)
    moreover from a have "[s ..< Suc e] \<noteq> []" by simp
    ultimately show "check_neurologist_appointment_availability today sched requested_start_date
        requested_end_date =
      Lines (map (\<lambda>day. day_line sched (strftime_date day)) [s ..< Suc e])"
      using a unfolding check_neurologist_appointment_availability_def Let_def
      by (simp del: upt_Suc)
  qed
  show "\<forall>any_sched ds. line_date (day_line any_sched ds) = ds \<and>
         day_line any_sched ds =
           (case any_sched ds of Some (t # ts) \<Rightarrow> Available_At ds (t # ts) | _ \<Rightarrow> No_Slots ds)"
    using day_line_cases line_date_day_line by simp
  show "initialize_neurologist_appointment_schedule random_sample loaded = Inr sched \<longrightarrow>
        (\<forall>ds l. sched ds = Some l \<longrightarrow> sorted l)"
    unfolding initialize_neurologist_appointment_schedule_def
    by (auto dest: neurologist_loop_sorted)
  show "dates = map strip (split_to [] date_range) \<longrightarrow>
        (strptime_date (hd dates) = None \<or> strptime_date (last dates) = None \<longrightarrow>
           pulmonologist_run lung_sched date_range = Invalid_Date_Format)
        \<and> (strptime_date (hd dates) = Some s \<and> strptime_date (last dates) = Some e \<and> e < s \<longrightarrow>
           pulmonologist_run lung_sched date_range = Invalid_Date_Range)
        \<and> (strptime_date (hd dates) = Some s \<and> strptime_date (last dates) = Some e \<and> s \<le> e \<longrightarrow>
           pulmonologist_run lung_sched date_range =
           Lines (map (\<lambda>day. day_line lung_sched (strftime_date day)) [s ..< Suc e]))"
  proof (intro impI conjI)
    assume d: "dates = map strip (split_to [] date_range)"
    {
      assume "strptime_date (hd dates) = None \<or> strptime_date (last dates) = None"
      then show "pulmonologist_run lung_sched date_range = Invalid_Date_Format"
        unfolding pulmonologist_run_def Let_def d[symmetric]
        by (auto split: option.splits)
    }
    {
      assume "strptime_date (hd dates) = Some s \<and> strptime_date (last dates) = Some e \<and> e < s"
      then show "pulmonologist_run lung_sched date_range = Invalid_Date_Range"
        unfolding pulmonologist_run_def Let_def d[symmetric] by simp
    }
    {
      assume a: "strptime_date (hd dates) = Some s \<and> strptime_date (last dates) = Some e \<and> s \<le> e"
      then have "map (\<lambda>i. day_line lung_sched (strftime_date (s + i))) [0 ..< (e - s) + 1] =
         map (\<lambda>day. day_line lung_sched (strftime_date day)) [s ..< Suc e]"
        by (simp only: range_lines)
      with a show "pulmonologist_run lung_sched date_range =
           Lines (map (\<lambda>day. day_line lung_sched (strftime_date day)) [s ..< Suc e])"
        unfolding pulmonologist_run_def Let_def d[symmetric] by (simp del: upt_Suc)
    }
  qed
  show "pulmonologist_run lung_sched date_range \<noteq> All_Past_Dates"
    by (simp add: pulmonologist_run_def Let_def split: option.splits)
  show "generate_appointment_schedule random_sample loaded = Inr lung_sched \<longrightarrow>
        (\<forall>ds l. lung_sched ds = Some l \<longrightarrow> sorted l)"
    unfolding generate_appointment_schedule_def
    by (auto dest: generate_loop_sorted)
qed


lemma range_days: "[739067 ..< Suc 739068] = [739067, 739068]"
  by (simp add: upt_rec[of "numeral _"])

lemma strftime_june_30: "strftime_date 739067 = ''2024-06-30''"
  by (simp add: strftime_eval)

lemma strftime_july_1: "strftime_date 739068 = ''2024-07-01''"
  by (simp add: strftime_eval)

lemma split_range_eval:
  "map strip (split_to [] ''2024-06-30 to 2024-07-01'') = [''2024-06-30'', ''2024-07-01'']"
  by (simp add: strip_def isspace_def)

theorem range_query_witness:
  "check_neurologist_appointment_availability scenario_today
     (Map.empty(''2024-07-01'' \<mapsto> [''09:00'', ''13:00''])) ''07/01/2024'' ''2024-07-01'' =
     Invalid_Date_Format
   \<and> check_neurologist_appointment_availability scenario_today
       (Map.empty(''2024-07-01'' \<mapsto> [''09:00'', ''13:00''])) ''2024-08-15'' ''2024-07-01'' =
     Invalid_Date_Range
   \<and> check_neurologist_appointment_availability scenario_today
       (Map.empty(''2024-07-01'' \<mapsto> [''09:00'', ''13:00''])) ''2024-06-30'' ''2024-06-30'' =
     All_Past_Dates
   \<and> check_neurologist_appointment_availability scenario_today
       (Map.empty(''2024-07-01'' \<mapsto> [''09:00'', ''13:00''])) ''2024-06-30'' ''2024-07-01'' =
     Lines [No_Slots ''2024-06-30'', Available_At ''2024-07-01'' [''09:00'', ''13:00'']]
   \<and> (\<exists>sched. initialize_neurologist_appointment_schedule (\<lambda>i population k. take k (rev population))
                 scenario_today = Inr sched \<and>
               (\<forall>ds l. sched ds = Some l \<longrightarrow> sorted l))
   \<and> pulmonologist_run (Map.empty(''2024-07-01'' \<mapsto> [''09:00'', ''13:00'']))
       ''2024-06-30 to 2024-07-01'' =
     Lines [No_Slots ''2024-06-30'', Available_At ''2024-07-01'' [''09:00'', ''13:00'']]"
proof (intro conjI)
  let ?sched = "Map.empty(''2024-07-01'' \<mapsto> [''09:00'', ''13:00''])"
  note q = range_query[where today=scenario_today and sched="?sched" and lung_sched="?sched"]
  show "check_neurologist_appointment_availability scenario_today ?sched ''07/01/2024''
      ''2024-07-01'' = Invalid_Date_Format"
    by (rule q[THEN conjunct1, THEN mp]) (simp add: date_eval)
  show "check_neurologist_appointment_availability scenario_today ?sched ''2024-08-15''
      ''2024-07-01'' = Invalid_Date_Range"
    by (rule q[where s=739113 and e=739068, THEN conjunct2, THEN conjunct1, THEN mp])
       (simp add: date_eval)
  show "check_neurologist_appointment_availability scenario_today ?sched ''2024-06-30''
      ''2024-06-30'' = All_Past_Dates"
    by (rule q[THEN conjunct2, THEN conjunct2, THEN conjunct1, THEN iffD2])
       (simp add: date_eval scenario_today_def)
  have lines: "map (\<lambda>day. day_line ?sched (strftime_date day)) [739067 ..< Suc 739068] =
      [No_Slots ''2024-06-30'', Available_At ''2024-07-01'' [''09:00'', ''13:00'']]"
    unfolding range_days by (simp add: strftime_june_30 strftime_july_1 day_line_def)
  have "check_neurologist_appointment_availability scenario_today ?sched ''2024-06-30''
      ''2024-07-01'' = Lines (map (\<lambda>day. day_line ?sched (strftime_date day)) [739067 ..< Suc 739068])"
    by (rule q[where s=739067 and e=739068, THEN conjunct2, THEN conjunct2, THEN conjunct2,
          THEN conjunct1, THEN mp])
       (simp add: date_eval scenario_today_def)
  then show "check_neurologist_appointment_availability scenario_today ?sched ''2024-06-30''
      ''2024-07-01'' =
      Lines [No_Slots ''2024-06-30'', Available_At ''2024-07-01'' [''09:00'', ''13:00'']]"
    unfolding lines .
  show "\<exists>sched. initialize_neurologist_appointment_schedule
          (\<lambda>i population k. take k (rev population)) scenario_today = Inr sched \<and>
        (\<forall>ds l. sched ds = Some l \<longrightarrow> sorted l)"
  proof -
    have "\<forall>i\<in>set [0 ..< schedule_days_ahead NEUROLOGY_OFFICE_CONFIG].
            scenario_today + i \<le> MAXORDINAL"
      by (simp add: NEUROLOGY_OFFICE_CONFIG_def scenario_today_def MAXORDINAL_def)
    from neurologist_loop_returns[OF this]
    obtain sched where s: "initialize_neurologist_appointment_schedule
          (\<lambda>i population k. take k (rev population)) scenario_today = Inr sched"
      unfolding initialize_neurologist_appointment_schedule_def by blast
    from range_query[where sched=sched and loaded=scenario_today
        and random_sample="\<lambda>i population k. take k (rev population)",
        THEN conjunct2, THEN conjunct2, THEN conjunct2, THEN conjunct2, THEN conjunct2,
        THEN conjunct1, THEN mp, OF s] s
    show ?thesis by blast
  qed
  have "pulmonologist_run ?sched ''2024-06-30 to 2024-07-01'' =
      Lines (map (\<lambda>day. day_line ?sched (strftime_date day)) [739067 ..< Suc 739068])"
    by (rule q[where s=739067 and e=739068 and dates="[''2024-06-30'', ''2024-07-01'']",
          THEN conjunct2, THEN conjunct2, THEN conjunct2, THEN conjunct2, THEN conjunct2,
          THEN conjunct2, THEN conjunct1, THEN mp, THEN conjunct2, THEN conjunct2, THEN mp])
       (simp_all add: strip_def isspace_def date_eval)
  then show "pulmonologist_run ?sched ''2024-06-30 to 2024-07-01'' =
      Lines [No_Slots ''2024-06-30'', Available_At ''2024-07-01'' [''09:00'', ''13:00'']]"
    unfolding lines .
qed

end
